theory Spec2Isabelle
  imports Main
begin

section \<open>Data model of \<^verbatim>\<open>textmate_grammar/parser.py\<close>\<close>

text \<open>
  A position (POS) is a Python tuple \<^verbatim>\<open>(line, column)\<close> of unbounded integers; tuples are
  compared lexicographically. A span is a pair of positions.
\<close>

type_synonym pos = "int \<times> int"
type_synonym span = "pos \<times> pos"

fun pos_lt :: "pos \<Rightarrow> pos \<Rightarrow> bool" where
  "pos_lt (l1, c1) (l2, c2) = (l1 < l2 \<or> (l1 = l2 \<and> c1 < c2))"

definition pos_le :: "pos \<Rightarrow> pos \<Rightarrow> bool" where
  "pos_le p q = (pos_lt p q \<or> p = q)"

text \<open>
  Parser objects live in a store and are referred to by their identity, because the grammar
  graph is cyclic (a repository rule may include itself) and \<^verbatim>\<open>initialize_repository\<close>
  mutates the objects in place.
\<close>

type_synonym pid = nat

text \<open>A compiled regular expression is represented by the text it was compiled from.\<close>

type_synonym pattern = string

datatype error =
    IncludedParserNotFound "string option"
  | AttributeError
  | TypeError
  | IndexError
  | ValueError
  | NotImplementedError

text \<open>
  The keyword arguments that travel through \<^verbatim>\<open>**kwargs\<close>; \<open>None\<close> means that the keyword
  was not passed. \<^verbatim>\<open>verbosity\<close> only feeds the log messages and is left out.
\<close>

record kwargs =
  kw_allow_leading_all :: "bool option"
  kw_find_one :: "bool option"
  kw_injections :: "bool option"

definition no_kwargs :: kwargs where
  "no_kwargs = \<lparr>kw_allow_leading_all = None, kw_find_one = None, kw_injections = None\<rparr>"

text \<open>
  What a slot of a pattern list or of a captures dictionary may hold: the include string left
  by \<^verbatim>\<open>GrammarParser.initialize\<close>, a parser object, or \<^verbatim>\<open>None\<close> (what
  \<^verbatim>\<open>dict.get(key, None)\<close> returns for a missing repository key).
\<close>

datatype slot = Include string | Parser pid | PyNone

text \<open>
  The scalar entries of a grammar dictionary that the constructors read. The nested
  dictionaries (\<^verbatim>\<open>patterns\<close>, \<^verbatim>\<open>captures\<close>, ...) are represented by the child
  parsers built from them.
\<close>

record grammar =
  g_name :: "string option"
  g_contentName :: "string option"
  g_disabled :: "bool option"
  g_match :: "string option"
  g_begin :: "string option"
  g_end :: "string option"
  g_while :: "string option"
  g_applyEndPatternLast :: "bool option"

text \<open>A regex match object; \<^verbatim>\<open>group()\<close> is all the parser reads from it.\<close>

datatype rematch = ReMatch (group0: string)

text \<open>
  The elements a parser returns. \<^verbatim>\<open>match_and_capture\<close> wraps a regex match in a
  \<^verbatim>\<open>Captures\<close> object that is resolved later by \<^verbatim>\<open>parse_captures\<close>; the object keeps
  the arguments it was built from.
\<close>

datatype element =
    ContentElement "string option" grammar string "pos list" "element list"
  | ContentBlockElement "string option" grammar string "pos list"
      "element list" "element list" "element list"
  | Captures pattern rematch "(int \<times> slot) list" pos "pos option" kwargs

text \<open>
  The attribute \<^verbatim>\<open>handler.anchor\<close> is an untyped Python slot: it can hold a column (an
  integer) or a position.
\<close>

datatype anchor_val = AnchorInt int | AnchorPos pos

text \<open>
  Modelled from the spec: \<^verbatim>\<open>ContentHandler\<close> (\<^verbatim>\<open>handler.py\<close> is not among the sources).
  The handler is an object whose methods are taken as parameters: the fields below are the
  methods the parser calls, as functions of the immutable text buffer. \<open>search\<close> may read and
  update the anchor, so it takes the anchor and returns the new one; it returns \<open>None\<close> for
  the no-match sentinel \<^verbatim>\<open>(None, None)\<close> and never raises.
\<close>

record handler =
  lines :: "string list"
  line_lengths :: "int list"
  anchor :: anchor_val
  read_pos :: "pos \<Rightarrow> pos \<Rightarrow> string"
  read_line :: "pos \<Rightarrow> string"
  read_length :: "pos \<Rightarrow> int \<Rightarrow> bool \<Rightarrow> string"
  range_pos :: "pos \<Rightarrow> pos \<Rightarrow> pos list"
  next_pos :: "pos \<Rightarrow> pos"
  prev_pos :: "pos \<Rightarrow> pos"
  search :: "pattern \<Rightarrow> pos \<Rightarrow> pos option \<Rightarrow> kwargs \<Rightarrow> anchor_val
               \<Rightarrow> (rematch \<times> span) option \<times> anchor_val"

text \<open>The two \<^verbatim>\<open>LOGGER.warning\<close> calls of the module; debug and info messages are not recorded.\<close>

datatype log_event =
    NoMoveWarning pid pos
  | SkipLineWarning pid pos string

text \<open>The mutable world of a parse: the handler (its anchor changes) and the log.\<close>

record world =
  hnd :: handler
  warnings :: "log_event list"

datatype kind =
    TokenParser | MatchParser | PatternsParser | BeginEndParser | BeginWhileParser
  | LanguageParser

text \<open>
  A parser object. The class hierarchy is flattened into one record with the class as a tag;
  a field that a class does not define is not read by the functions modelling that class
  (where the source reads a missing attribute, the model raises \<open>AttributeError\<close>).
  \<open>repository\<close> and \<open>find_include_scopes\<close> belong to the language object
  (\<^verbatim>\<open>language.py\<close> is not among the sources): the repository is the dictionary that
  \<^verbatim>\<open>_find_include\<close> queries with \<^verbatim>\<open>.get\<close>, and \<^verbatim>\<open>_find_include_scopes\<close> is taken as a
  parameter.
\<close>

record parser =
  kind :: kind
  grammar :: grammar
  language :: "pid option"
  key :: string
  token :: "string option"
  disabled :: bool
  initialized :: bool
  anchored :: bool
  injected_patterns :: "slot list"
  exp_match :: pattern
  parsers :: "(int \<times> slot) list"
  patterns :: "slot list"
  between_content :: bool
  apply_end_pattern_last :: bool
  exp_begin :: pattern
  exp_end :: pattern
  parsers_begin :: "(int \<times> slot) list"
  parsers_end :: "(int \<times> slot) list"
  exp_while :: pattern
  parsers_while :: "(int \<times> slot) list"
  repository :: "(string \<times> pid) list"
  find_include_scopes :: "string \<Rightarrow> error + slot"

type_synonym store = "pid \<Rightarrow> parser"

text \<open>
  A computation may run out of fuel (\<open>None\<close>, standing for a run that does not return),
  raise (\<open>Some (Inl e)\<close>) or return (\<open>Some (Inr v)\<close>).
\<close>

type_synonym 'a result = "(error + 'a) option"

type_synonym parsed = "bool \<times> element list \<times> span option"

type_synonym child_parse =
  "pid \<Rightarrow> pos \<Rightarrow> pos option \<Rightarrow> kwargs \<Rightarrow> world \<Rightarrow> (parsed \<times> world) result"

text \<open>Python truthiness of a token: \<^verbatim>\<open>None\<close> and the empty string are false.\<close>

definition truthy :: "string option \<Rightarrow> bool" where
  "truthy t = (case t of None \<Rightarrow> False | Some s \<Rightarrow> s \<noteq> [])"

section \<open>Constructors\<close>

fun starts_with :: "string \<Rightarrow> string \<Rightarrow> bool" where
  "starts_with [] ys = True"
| "starts_with (x # xs) [] = False"
| "starts_with (x # xs) (y # ys) = (x = y \<and> starts_with xs ys)"

text \<open>Python's \<^verbatim>\<open>sub in s\<close> on strings.\<close>

fun str_in :: "string \<Rightarrow> string \<Rightarrow> bool" where
  "str_in sub [] = (sub = [])"
| "str_in sub (y # ys) = (starts_with sub (y # ys) \<or> str_in sub ys)"

text \<open>The two characters \<^verbatim>\<open>\G\<close>.\<close>

definition anchor_G :: string where
  "anchor_G = [CHR 0x5C, CHR ''G'']"

definition newline :: string where
  "newline = [CHR 0x0A]"

text \<open>\<^verbatim>\<open>GrammarParser.__init__\<close>; the kind-specific fields get placeholder values.\<close>

definition GrammarParser_init :: "kind \<Rightarrow> grammar \<Rightarrow> pid option \<Rightarrow> string \<Rightarrow> parser" where
  "GrammarParser_init k g lang ky =
     \<lparr>kind = k, grammar = g, language = lang, key = ky,
      token = Some (case g_name g of None \<Rightarrow> [] | Some n \<Rightarrow> n),
      disabled = (case g_disabled g of None \<Rightarrow> False | Some d \<Rightarrow> d),
      initialized = False, anchored = False, injected_patterns = [],
      exp_match = [], parsers = [], patterns = [], between_content = False,
      apply_end_pattern_last = False, exp_begin = [], exp_end = [],
      parsers_begin = [], parsers_end = [], exp_while = [], parsers_while = [],
      repository = [], find_include_scopes = (\<lambda>_. Inr PyNone)\<rparr>"

text \<open>\<^verbatim>\<open>TokenParser.__init__\<close>.\<close>

definition TokenParser_init :: "grammar \<Rightarrow> pid option \<Rightarrow> string \<Rightarrow> parser" where
  "TokenParser_init g lang ky = (GrammarParser_init TokenParser g lang ky)\<lparr>initialized := True\<rparr>"

text \<open>
  \<^verbatim>\<open>MatchParser.__init__\<close>, which \<^verbatim>\<open>initialize\<close> calls only when the key \<^verbatim>\<open>match\<close> is
  present; \<open>caps\<close> is the dictionary built by \<^verbatim>\<open>_init_captures\<close>.
\<close>

definition MatchParser_init ::
  "grammar \<Rightarrow> string \<Rightarrow> (int \<times> slot) list \<Rightarrow> pid option \<Rightarrow> string \<Rightarrow> parser" where
  "MatchParser_init g m caps lang ky =
     (GrammarParser_init MatchParser g lang ky)
       \<lparr>anchored := str_in anchor_G m, exp_match := m, parsers := caps\<rparr>"

text \<open>\<^verbatim>\<open>PatternsParser.__init__\<close>; \<open>pats\<close> is the list built by \<^verbatim>\<open>initialize\<close>.\<close>

definition PatternsParser_init ::
  "kind \<Rightarrow> grammar \<Rightarrow> slot list \<Rightarrow> pid option \<Rightarrow> string \<Rightarrow> parser" where
  "PatternsParser_init k g pats lang ky = (GrammarParser_init k g lang ky)\<lparr>patterns := pats\<rparr>"

text \<open>\<^verbatim>\<open>BeginEndParser.__init__\<close>, called when the keys \<^verbatim>\<open>begin\<close> and \<^verbatim>\<open>end\<close> are present.\<close>

definition BeginEndParser_init ::
  "grammar \<Rightarrow> string \<Rightarrow> string \<Rightarrow> slot list \<Rightarrow> (int \<times> slot) list \<Rightarrow> (int \<times> slot) list
     \<Rightarrow> pid option \<Rightarrow> string \<Rightarrow> parser" where
  "BeginEndParser_init g b e pats bcaps ecaps lang ky =
     (PatternsParser_init BeginEndParser g pats lang ky)
       \<lparr>token := (case g_contentName g of Some c \<Rightarrow> Some c | None \<Rightarrow> g_name g),
        anchored := str_in anchor_G b,
        between_content := (g_contentName g \<noteq> None),
        apply_end_pattern_last :=
          (case g_applyEndPatternLast g of None \<Rightarrow> False | Some a \<Rightarrow> a),
        exp_begin := b, exp_end := e, parsers_begin := bcaps, parsers_end := ecaps\<rparr>"

section \<open>\<^verbatim>\<open>match_and_capture\<close>, \<^verbatim>\<open>TokenParser\<close> and \<^verbatim>\<open>MatchParser\<close>\<close>

text \<open>
  \<^verbatim>\<open>GrammarParser.match_and_capture\<close>: the span (if any), the matched text and the list
  holding the one \<^verbatim>\<open>Captures\<close> object, together with the handler after the search.
\<close>

definition match_and_capture ::
  "handler \<Rightarrow> pattern \<Rightarrow> pos \<Rightarrow> pos option \<Rightarrow> (int \<times> slot) list \<Rightarrow> kwargs
     \<Rightarrow> (span option \<times> string \<times> element list) \<times> handler" where
  "match_and_capture h pat starting boundary prs kw =
     (case search h pat starting boundary kw (anchor h) of
        (Some (matching, sp), a) \<Rightarrow>
          ((Some sp, group0 matching, [Captures pat matching prs starting boundary kw]),
           h\<lparr>anchor := a\<rparr>)
      | (None, a) \<Rightarrow> ((None, [], []), h\<lparr>anchor := a\<rparr>))"

text \<open>
  \<^verbatim>\<open>TokenParser._parse\<close>. Without a boundary the subscript \<^verbatim>\<open>boundary[1]\<close> raises.
\<close>

definition TokenParser_parse ::
  "parser \<Rightarrow> pos \<Rightarrow> pos option \<Rightarrow> world \<Rightarrow> error + (parsed \<times> world)" where
  "TokenParser_parse self starting boundary w =
     (case boundary of
        None \<Rightarrow> Inl TypeError
      | Some b \<Rightarrow>
          (let h = hnd w;
               content = read_pos h starting b;
               elements = [ContentElement (token self) (grammar self) content
                             (range_pos h starting b) []]
           in Inr ((True, elements, Some (starting, b)),
                   w\<lparr>hnd := h\<lparr>anchor := AnchorInt (snd b)\<rparr>\<rparr>)))"

text \<open>\<^verbatim>\<open>MatchParser._parse\<close>; every keyword it received goes on to \<^verbatim>\<open>handler.search\<close>.\<close>

definition MatchParser_parse ::
  "parser \<Rightarrow> pos \<Rightarrow> pos option \<Rightarrow> kwargs \<Rightarrow> world \<Rightarrow> error + (parsed \<times> world)" where
  "MatchParser_parse self starting boundary kw w =
     (case match_and_capture (hnd w) (exp_match self) starting boundary (parsers self) kw of
        ((None, content, captures), h') \<Rightarrow> Inr ((False, [], None), w\<lparr>hnd := h'\<rparr>)
      | ((Some sp, content, captures), h') \<Rightarrow>
          (let elements =
                 (if truthy (token self)
                  then [ContentElement (token self) (grammar self) content
                          (range_pos h' (fst sp) (snd sp)) captures]
                  else captures)
           in Inr ((True, elements, Some sp), w\<lparr>hnd := h'\<rparr>)))"

section \<open>\<^verbatim>\<open>PatternsParser._parse\<close>\<close>

text \<open>
  \<^verbatim>\<open>[parser for parser in self.patterns if not parser.disabled]\<close>: reading \<^verbatim>\<open>disabled\<close>
  from an include string or from \<^verbatim>\<open>None\<close> raises.
\<close>

fun enabled_patterns :: "store \<Rightarrow> slot list \<Rightarrow> error + pid list" where
  "enabled_patterns ps [] = Inr []"
| "enabled_patterns ps (Parser q # xs) =
     (case enabled_patterns ps xs of
        Inl e \<Rightarrow> Inl e
      | Inr qs \<Rightarrow> Inr (if disabled (ps q) then qs else q # qs))"
| "enabled_patterns ps (x # xs) = Inl AttributeError"

text \<open>
  The search set of \<^verbatim>\<open>PatternsParser._parse\<close>:
  \<^verbatim>\<open>if find_one or injections: patterns = patterns + self.injected_patterns\<close>.
\<close>

definition PatternsParser_search_set :: "store \<Rightarrow> pid \<Rightarrow> bool \<Rightarrow> bool \<Rightarrow> error + slot list" where
  "PatternsParser_search_set ps self fnd_one injs =
     (case enabled_patterns ps (patterns (ps self)) of
        Inl e \<Rightarrow> Inl e
      | Inr qs \<Rightarrow>
          Inr (if fnd_one \<or> injs then map Parser qs @ injected_patterns (ps self)
               else map Parser qs))"

text \<open>
  \<^verbatim>\<open>boundary = (len(handler.lines) - 1, handler.line_lengths[-1])\<close> when no boundary is
  given.
\<close>

definition default_boundary :: "handler \<Rightarrow> pos option \<Rightarrow> error + pos" where
  "default_boundary h boundary =
     (case boundary of
        Some b \<Rightarrow> Inr b
      | None \<Rightarrow>
          if line_lengths h = [] then Inl IndexError
          else Inr (int (length (lines h)) - 1, last (line_lengths h)))"

text \<open>
  One \<^verbatim>\<open>for parser in patterns\<close> loop: the parsers are tried in order until one reports
  \<^verbatim>\<open>parsed\<close>; \<open>None\<close> in the result is the loop's \<^verbatim>\<open>else\<close> branch.
\<close>

fun try_parsers ::
  "child_parse \<Rightarrow> slot list \<Rightarrow> pos \<Rightarrow> pos \<Rightarrow> kwargs \<Rightarrow> world
     \<Rightarrow> ((pid \<times> element list \<times> span option) option \<times> world) result" where
  "try_parsers child [] current boundary kw w = Some (Inr (None, w))"
| "try_parsers child (Parser q # qs) current boundary kw w =
     (case child q current (Some boundary) kw w of
        None \<Rightarrow> None
      | Some (Inl e) \<Rightarrow> Some (Inl e)
      | Some (Inr ((parsed, captures, sp), w')) \<Rightarrow>
          if parsed then Some (Inr (Some (q, captures, sp), w'))
          else try_parsers child qs current boundary kw w')"
| "try_parsers child (x # qs) current boundary kw w = Some (Inl AttributeError)"

text \<open>What one round of the \<^verbatim>\<open>while\<close> loop of \<^verbatim>\<open>PatternsParser._parse\<close> ends in.\<close>

datatype round_outcome =
    Return parsed
  | Stop "element list" pos
  | Again "element list" pos

text \<open>
  After a child matched (and \<^verbatim>\<open>find_one\<close> is off): extend the elements, move the
  cursor, and compare the cursor with the position the call started from.
\<close>

definition after_match ::
  "pid \<Rightarrow> pos \<Rightarrow> element list \<Rightarrow> element list \<Rightarrow> span option \<Rightarrow> world
     \<Rightarrow> error + (round_outcome \<times> world)" where
  "after_match self starting elements captures sp w =
     (case sp of
        None \<Rightarrow> Inl TypeError
      | Some s \<Rightarrow>
          if snd s = starting
          then Inr (Stop (elements @ captures) (snd s),
                    w\<lparr>warnings := warnings w @ [NoMoveWarning self starting]\<rparr>)
          else Inr (Again (elements @ captures) (snd s), w))"

text \<open>
  The keywords that \<^verbatim>\<open>PatternsParser._parse\<close> passes to a child: its own
  \<^verbatim>\<open>find_one\<close> and \<^verbatim>\<open>injections\<close> are named parameters and do not travel on.
\<close>

definition child_kwargs :: "bool \<Rightarrow> kwargs" where
  "child_kwargs ala = no_kwargs\<lparr>kw_allow_leading_all := Some ala\<rparr>"

text \<open>
  The two \<^verbatim>\<open>for\<close> loops of a round: the patterns are tried with the caller's
  \<^verbatim>\<open>allow_leading_all\<close>; when none matched and \<^verbatim>\<open>find_one\<close> is off they are tried
  again with \<^verbatim>\<open>allow_leading_all=True\<close> (over the empty list when it was already on).
\<close>

definition search_round ::
  "child_parse \<Rightarrow> slot list \<Rightarrow> pos \<Rightarrow> pos \<Rightarrow> bool \<Rightarrow> bool \<Rightarrow> world
     \<Rightarrow> ((pid \<times> element list \<times> span option) option \<times> world) result" where
  "search_round child pats current boundary ala fnd_one w =
     (case try_parsers child pats current boundary (child_kwargs ala) w of
        None \<Rightarrow> None
      | Some (Inl e) \<Rightarrow> Some (Inl e)
      | Some (Inr (Some m, w1)) \<Rightarrow> Some (Inr (Some m, w1))
      | Some (Inr (None, w1)) \<Rightarrow>
          if fnd_one then Some (Inr (None, w1))
          else try_parsers child (if \<not> ala then pats else []) current boundary
                 (child_kwargs True) w1)"

definition PatternsParser_round ::
  "child_parse \<Rightarrow> pid \<Rightarrow> slot list \<Rightarrow> pos \<Rightarrow> pos \<Rightarrow> bool \<Rightarrow> bool \<Rightarrow> pos \<Rightarrow> element list
     \<Rightarrow> world \<Rightarrow> (round_outcome \<times> world) result" where
  "PatternsParser_round child self pats starting boundary ala fnd_one current elements w =
     (case search_round child pats current boundary ala fnd_one w of
        None \<Rightarrow> None
      | Some (Inl e) \<Rightarrow> Some (Inl e)
      | Some (Inr (Some (q, captures, sp), w1)) \<Rightarrow>
          if fnd_one then Some (Inr (Return (True, captures, sp), w1))
          else Some (after_match self starting elements captures sp w1)
      | Some (Inr (None, w1)) \<Rightarrow> Some (Inr (Stop elements current, w1)))"

text \<open>The \<^verbatim>\<open>while current < boundary\<close> loop; the fuel bounds the number of rounds.\<close>

primrec PatternsParser_loop ::
  "nat \<Rightarrow> child_parse \<Rightarrow> pid \<Rightarrow> slot list \<Rightarrow> pos \<Rightarrow> pos \<Rightarrow> bool \<Rightarrow> bool \<Rightarrow> pos
     \<Rightarrow> element list \<Rightarrow> world \<Rightarrow> (parsed \<times> world) result" where
  "PatternsParser_loop 0 child self pats starting boundary ala fnd_one current elements w = None"
| "PatternsParser_loop (Suc n) child self pats starting boundary ala fnd_one current elements w =
     (if pos_lt current boundary then
        (case PatternsParser_round child self pats starting boundary ala fnd_one current
                elements w of
           None \<Rightarrow> None
         | Some (Inl e) \<Rightarrow> Some (Inl e)
         | Some (Inr (Return r, w')) \<Rightarrow> Some (Inr (r, w'))
         | Some (Inr (Stop els cur, w')) \<Rightarrow>
             Some (Inr ((els \<noteq> [], els, Some (starting, cur)), w'))
         | Some (Inr (Again els cur, w')) \<Rightarrow>
             PatternsParser_loop n child self pats starting boundary ala fnd_one cur els w')
      else Some (Inr ((elements \<noteq> [], elements, Some (starting, current)), w)))"

text \<open>
  \<^verbatim>\<open>PatternsParser._parse\<close> with its three named keywords and their defaults.
\<close>

definition PatternsParser_parse ::
  "nat \<Rightarrow> child_parse \<Rightarrow> store \<Rightarrow> pid \<Rightarrow> pos \<Rightarrow> pos option \<Rightarrow> kwargs \<Rightarrow> world
     \<Rightarrow> (parsed \<times> world) result" where
  "PatternsParser_parse n child ps self starting boundary kw w =
     (let ala = (case kw_allow_leading_all kw of None \<Rightarrow> False | Some b \<Rightarrow> b);
          fnd_one = (case kw_find_one kw of None \<Rightarrow> True | Some b \<Rightarrow> b);
          injs = (case kw_injections kw of None \<Rightarrow> False | Some b \<Rightarrow> b)
      in case default_boundary (hnd w) boundary of
           Inl e \<Rightarrow> Some (Inl e)
         | Inr b \<Rightarrow>
             (case PatternsParser_search_set ps self fnd_one injs of
                Inl e \<Rightarrow> Some (Inl e)
              | Inr pats \<Rightarrow>
                  PatternsParser_loop n child self pats starting b ala fnd_one starting [] w))"

section \<open>\<^verbatim>\<open>BeginEndParser._parse\<close>\<close>

text \<open>
  Python's \<^verbatim>\<open>str.isspace\<close>. A character of a string stands for the code point of its
  number, so strings range over the code points below 256; the whitespace among them are
  9 to 13, 28 to 32, 133 (U+0085) and 160 (U+00A0).
\<close>

definition py_isspace :: "string \<Rightarrow> bool" where
  "py_isspace s =
     (s \<noteq> [] \<and>
      list_all (\<lambda>c. of_char c \<in> set [9, 10, 11, 12, 13, 28, 29, 30, 31, 32, 133, 160 :: nat]) s)"

text \<open>Python's list indexing by an integer.\<close>

definition py_index :: "'a list \<Rightarrow> int \<Rightarrow> error + 'a" where
  "py_index xs i =
     (if 0 \<le> i \<and> i < int (length xs) then Inr (xs ! nat i)
      else if i < 0 \<and> - int (length xs) \<le> i then Inr (xs ! nat (int (length xs) + i))
      else Inl IndexError)"

text \<open>The one keyword that \<^verbatim>\<open>BeginEndParser._parse\<close> passes to \<^verbatim>\<open>match_and_capture\<close>.\<close>

definition search_kwargs :: "bool \<Rightarrow> kwargs" where
  "search_kwargs ala = no_kwargs\<lparr>kw_allow_leading_all := Some ala\<rparr>"

text \<open>
  Steps A to C of an iteration: the inner patterns and the end pattern are searched without
  leading characters, and once more with them when neither was found. The result is the
  capture (with the parser that produced it), the end span and the end elements.
\<close>

definition BeginEnd_find ::
  "child_parse \<Rightarrow> parser \<Rightarrow> kwargs \<Rightarrow> slot list \<Rightarrow> pos \<Rightarrow> pos \<Rightarrow> world
     \<Rightarrow> (((pid \<times> element list \<times> span option) option \<times> span option \<times> element list)
          \<times> world) result" where
  "BeginEnd_find child self kw pats current boundary w =
     (case try_parsers child pats current boundary (kw\<lparr>kw_allow_leading_all := Some False\<rparr>) w of
        None \<Rightarrow> None
      | Some (Inl e) \<Rightarrow> Some (Inl e)
      | Some (Inr (cap1, w1)) \<Rightarrow>
          (case match_and_capture (hnd w1) (exp_end self) current (Some boundary)
                  (parsers_end self) (search_kwargs False) of
             ((end_span1, content1, end_elements1), h1) \<Rightarrow>
               if cap1 = None \<and> end_span1 = None then
                 (case try_parsers child pats current boundary
                         (kw\<lparr>kw_allow_leading_all := Some True\<rparr>) (w1\<lparr>hnd := h1\<rparr>) of
                    None \<Rightarrow> None
                  | Some (Inl e) \<Rightarrow> Some (Inl e)
                  | Some (Inr (cap2, w2)) \<Rightarrow>
                      (case match_and_capture (hnd w2) (exp_end self) current (Some boundary)
                              (parsers_end self) (search_kwargs True) of
                         ((end_span2, content2, end_elements2), h2) \<Rightarrow>
                           Some (Inr ((cap2, end_span2, end_elements2), w2\<lparr>hnd := h2\<rparr>))))
               else Some (Inr ((cap1, end_span1, end_elements1), w1\<lparr>hnd := h1\<rparr>))))"

text \<open>
  What the decision of an iteration is: leave the loop with a closing position, the accepted
  end span and the elements collected so far, or go on from a new cursor.
\<close>

datatype step =
    Break pos span "element list"
  | Continue pos "element list"

text \<open>\<^verbatim>\<open>closing = end_span[0] if self.between_content else end_span[1]\<close>.\<close>

definition close_at :: "parser \<Rightarrow> span \<Rightarrow> pos" where
  "close_at self end_span = (if between_content self then fst end_span else snd end_span)"

definition pattern_at_end :: "handler \<Rightarrow> span \<Rightarrow> span \<Rightarrow> bool" where
  "pattern_at_end h capture_span end_span =
     (let capture_before_end = prev_pos h (snd capture_span)
      in if read_length h capture_before_end 1 False = newline
         then snd end_span = capture_before_end \<or> snd end_span = snd capture_span
         else snd end_span = snd capture_span)"

text \<open>
  The decision when both a capture and an end span were found (source lines 438 to 501);
  \<open>local_flag\<close> is the iteration's own \<^verbatim>\<open>apply_end_pattern_last\<close>.
\<close>

definition arbitrate ::
  "handler \<Rightarrow> parser \<Rightarrow> bool \<Rightarrow> element list \<Rightarrow> span \<Rightarrow> span \<Rightarrow> element list \<Rightarrow> step" where
  "arbitrate h self local_flag capture_elements capture_span end_span mid =
     (let end_before_pattern = pos_le (fst end_span) (fst capture_span);
          empty_span_end = (snd end_span = fst end_span)
      in if pattern_at_end h capture_span end_span \<and> (end_before_pattern \<or> empty_span_end) then
           (if empty_span_end then Break (close_at self end_span) end_span (mid @ capture_elements)
            else if \<not> apply_end_pattern_last self \<and> \<not> local_flag
                 then Break (close_at self end_span) end_span mid
            else Continue (snd capture_span) (mid @ capture_elements))
         else if pos_lt (fst capture_span) (fst end_span)
              then Continue (snd capture_span) (mid @ capture_elements)
         else Break (close_at self end_span) end_span mid)"

text \<open>
  The decision when only a capture was found (source lines 508 to 539): a newline right
  after the capture is skipped unless the end pattern matches around it.
\<close>

definition capture_only ::
  "parser \<Rightarrow> element list \<Rightarrow> span \<Rightarrow> pos \<Rightarrow> element list \<Rightarrow> world \<Rightarrow> step \<times> world" where
  "capture_only self capture_elements capture_span boundary mid w =
     (let h = hnd w
      in if read_length h (snd capture_span) 1 False = newline then
           (case match_and_capture h (exp_end self) (snd capture_span) (Some boundary)
                   (parsers_end self) (search_kwargs False) of
              ((end_span, content, els), h') \<Rightarrow>
                (case end_span of
                   Some es \<Rightarrow>
                     if pos_le (snd es) (next_pos h' (snd capture_span))
                     then (Continue (snd capture_span) (mid @ capture_elements), w\<lparr>hnd := h'\<rparr>)
                     else (Continue (next_pos h' (snd capture_span)) (mid @ capture_elements),
                           w\<lparr>hnd := h'\<rparr>)
                 | None \<Rightarrow>
                     (Continue (next_pos h' (snd capture_span)) (mid @ capture_elements),
                      w\<lparr>hnd := h'\<rparr>)))
         else (Continue (snd capture_span) (mid @ capture_elements), w))"

text \<open>
  Neither a capture nor an end span (source lines 541 to 548): warn about a non-blank line
  and move to the position after the end of the current line.
\<close>

definition skip_line :: "pid \<Rightarrow> pos \<Rightarrow> element list \<Rightarrow> world \<Rightarrow> error + (step \<times> world)" where
  "skip_line self_id current mid w =
     (let h = hnd w;
          line = read_line h current;
          w' = (if line \<noteq> [] \<and> \<not> py_isspace line
                then w\<lparr>warnings := warnings w @ [SkipLineWarning self_id current line]\<rparr>
                else w)
      in case py_index (line_lengths h) (fst current) of
           Inl e \<Rightarrow> Inl e
         | Inr len \<Rightarrow> Inr (Continue (next_pos h (fst current, len)) mid, w'))"

text \<open>Step D: the decision, by which of the capture and the end span were found.\<close>

definition BeginEnd_decide ::
  "pid \<Rightarrow> parser \<Rightarrow> (pid \<times> element list \<times> span option) option \<Rightarrow> span option \<Rightarrow> pos \<Rightarrow> pos
     \<Rightarrow> element list \<Rightarrow> world \<Rightarrow> error + (step \<times> world)" where
  "BeginEnd_decide self_id self cap end_span current boundary mid w =
     (case end_span of
        Some es \<Rightarrow>
          (case cap of
             Some (q, capture_elements, csp) \<Rightarrow>
               (case csp of
                  None \<Rightarrow> Inl TypeError
                | Some cs \<Rightarrow> Inr (arbitrate (hnd w) self (q = self_id) capture_elements cs es mid, w))
           | None \<Rightarrow> Inr (Break (close_at self es) es mid, w))
      | None \<Rightarrow>
          (case cap of
             Some (q, capture_elements, csp) \<Rightarrow>
               (case csp of
                  None \<Rightarrow> Inl TypeError
                | Some cs \<Rightarrow> Inr (capture_only self capture_elements cs boundary mid w))
           | None \<Rightarrow> skip_line self_id current mid w))"

text \<open>
  \<^verbatim>\<open>if apply_end_pattern_last: current = handler.next(current)\<close>, at the end of an
  iteration that did not leave the loop.
\<close>

definition advance_if_recursive :: "handler \<Rightarrow> bool \<Rightarrow> step \<Rightarrow> step" where
  "advance_if_recursive h local_flag s =
     (case s of
        Break closing es mid \<Rightarrow> Break closing es mid
      | Continue current mid \<Rightarrow> Continue (if local_flag then next_pos h current else current) mid)"

definition is_self :: "pid \<Rightarrow> (pid \<times> element list \<times> span option) option \<Rightarrow> bool" where
  "is_self self_id cap = (case cap of None \<Rightarrow> False | Some (q, ce, csp) \<Rightarrow> q = self_id)"

text \<open>The body of the \<^verbatim>\<open>while current <= boundary\<close> loop, up to the update of the pattern list.\<close>

definition BeginEnd_iteration ::
  "child_parse \<Rightarrow> store \<Rightarrow> pid \<Rightarrow> kwargs \<Rightarrow> pid list \<Rightarrow> pos \<Rightarrow> pos \<Rightarrow> element list \<Rightarrow> world
     \<Rightarrow> ((step \<times> element list) \<times> world) result" where
  "BeginEnd_iteration child ps self_id kw pats current boundary mid w =
     (case BeginEnd_find child (ps self_id) kw (map Parser pats) current boundary w of
        None \<Rightarrow> None
      | Some (Inl e) \<Rightarrow> Some (Inl e)
      | Some (Inr ((cap, end_span, end_elements), w1)) \<Rightarrow>
          (case BeginEnd_decide self_id (ps self_id) cap end_span current boundary mid w1 of
             Inl e \<Rightarrow> Some (Inl e)
           | Inr (s, w2) \<Rightarrow>
               Some (Inr ((advance_if_recursive (hnd w2) (is_self self_id cap) s, end_elements),
                          w2))))"

text \<open>
  How the loop ended: by a \<^verbatim>\<open>break\<close> (closing position, accepted end span, collected
  elements, end elements) or by its \<^verbatim>\<open>else\<close> branch at the boundary.
\<close>

datatype loop_outcome =
    Closed pos span "element list" "element list"
  | Exhausted pos "element list" "element list"

primrec BeginEnd_loop ::
  "nat \<Rightarrow> child_parse \<Rightarrow> store \<Rightarrow> pid \<Rightarrow> kwargs \<Rightarrow> pid list \<Rightarrow> bool \<Rightarrow> pos \<Rightarrow> pos
     \<Rightarrow> element list \<Rightarrow> element list \<Rightarrow> world \<Rightarrow> (loop_outcome \<times> world) result" where
  "BeginEnd_loop 0 child ps self_id kw pats first_run current boundary mid end_elements w = None"
| "BeginEnd_loop (Suc n) child ps self_id kw pats first_run current boundary mid end_elements w =
     (if pos_le current boundary then
        (case BeginEnd_iteration child ps self_id kw pats current boundary mid w of
           None \<Rightarrow> None
         | Some (Inl e) \<Rightarrow> Some (Inl e)
         | Some (Inr ((Break closing es mid', ee), w')) \<Rightarrow>
             Some (Inr (Closed closing es mid' ee, w'))
         | Some (Inr ((Continue cur mid', ee), w')) \<Rightarrow>
             BeginEnd_loop n child ps self_id kw
               (if first_run then filter (\<lambda>q. \<not> anchored (ps q)) pats else pats)
               False cur boundary mid' ee w')
      else Some (Inr (Exhausted boundary mid end_elements, w)))"

fun closing_of :: "loop_outcome \<Rightarrow> pos" where
  "closing_of (Closed closing es mid ee) = closing"
| "closing_of (Exhausted boundary mid ee) = boundary"

text \<open>The variable \<^verbatim>\<open>end_span\<close> after the loop; \<^verbatim>\<open>(None, boundary)\<close> when it was exhausted.\<close>

fun end_span_of :: "loop_outcome \<Rightarrow> pos option \<times> pos" where
  "end_span_of (Closed closing es mid ee) = (Some (fst es), snd es)"
| "end_span_of (Exhausted boundary mid ee) = (None, boundary)"

fun mid_of :: "loop_outcome \<Rightarrow> element list" where
  "mid_of (Closed closing es mid ee) = mid"
| "mid_of (Exhausted boundary mid ee) = mid"

fun end_of :: "loop_outcome \<Rightarrow> element list" where
  "end_of (Closed closing es mid ee) = ee"
| "end_of (Exhausted boundary mid ee) = ee"

text \<open>Source lines 562 to 583: the output elements and the returned span.\<close>

definition BeginEnd_finish :: "parser \<Rightarrow> handler \<Rightarrow> span \<Rightarrow> element list \<Rightarrow> loop_outcome \<Rightarrow> parsed" where
  "BeginEnd_finish self h begin_span begin_elements lo =
     (let start = (if between_content self then snd begin_span else fst begin_span);
          closing = closing_of lo;
          content = read_pos h start closing;
          elements =
            (if truthy (token self)
             then [ContentBlockElement (token self) (grammar self) content
                     (range_pos h start closing) (mid_of lo) begin_elements (end_of lo)]
             else begin_elements @ mid_of lo @ end_of lo)
      in (True, elements, Some (fst begin_span, snd (end_span_of lo))))"

definition BeginEndParser_parse ::
  "nat \<Rightarrow> child_parse \<Rightarrow> store \<Rightarrow> pid \<Rightarrow> pos \<Rightarrow> pos option \<Rightarrow> kwargs \<Rightarrow> world
     \<Rightarrow> (parsed \<times> world) result" where
  "BeginEndParser_parse n child ps self_id starting boundary kw w =
     (let self = ps self_id;
          ala = (case kw_allow_leading_all kw of None \<Rightarrow> False | Some b \<Rightarrow> b)
      in case match_and_capture (hnd w) (exp_begin self) starting boundary (parsers_begin self)
                (search_kwargs ala) of
           ((None, content, els), h1) \<Rightarrow> Some (Inr ((False, [], None), w\<lparr>hnd := h1\<rparr>))
         | ((Some begin_span, content, begin_elements), h1) \<Rightarrow>
             (case default_boundary h1 boundary of
                Inl e \<Rightarrow> Some (Inl e)
              | Inr b \<Rightarrow>
                  (case enabled_patterns ps (patterns self) of
                     Inl e \<Rightarrow> Some (Inl e)
                   | Inr pats \<Rightarrow>
                       (case BeginEnd_loop n child ps self_id kw pats True (snd begin_span) b
                               [] [] (w\<lparr>hnd := h1\<rparr>) of
                          None \<Rightarrow> None
                        | Some (Inl e) \<Rightarrow> Some (Inl e)
                        | Some (Inr (lo, w2)) \<Rightarrow>
                            Some (Inr (BeginEnd_finish self (hnd w2) begin_span begin_elements lo,
                                       w2))))))"

section \<open>Dispatch of \<^verbatim>\<open>parser._parse\<close>\<close>

text \<open>
  The method call \<^verbatim>\<open>parser._parse(...)\<close> on the object \<open>q\<close>. The fuel bounds the depth of
  the recursion through child parsers and the rounds of each loop.
  \<^verbatim>\<open>BeginWhileParser._parse\<close> raises \<^verbatim>\<open>NotImplementedError\<close>. Modelled from the spec:
  the language root (\<^verbatim>\<open>language.py\<close> is not among the sources) is a
  \<^verbatim>\<open>PatternsParser\<close> and parses as one.
\<close>

primrec parser_parse :: "nat \<Rightarrow> store \<Rightarrow> child_parse" where
  "parser_parse 0 ps = (\<lambda>q starting boundary kw w. None)"
| "parser_parse (Suc n) ps =
     (\<lambda>q starting boundary kw w.
        case kind (ps q) of
          TokenParser \<Rightarrow> Some (TokenParser_parse (ps q) starting boundary w)
        | MatchParser \<Rightarrow> Some (MatchParser_parse (ps q) starting boundary kw w)
        | PatternsParser \<Rightarrow>
            PatternsParser_parse n (parser_parse n ps) ps q starting boundary kw w
        | LanguageParser \<Rightarrow>
            PatternsParser_parse n (parser_parse n ps) ps q starting boundary kw w
        | BeginEndParser \<Rightarrow>
            BeginEndParser_parse n (parser_parse n ps) ps q starting boundary kw w
        | BeginWhileParser \<Rightarrow> Some (Inl NotImplementedError))"

section \<open>Repository initialization\<close>

text \<open>
  \<^verbatim>\<open>GrammarParser._find_include\<close>. A parser without a language raises; \<^verbatim>\<open>$self\<close> and
  \<^verbatim>\<open>$base\<close> give the language; \<^verbatim>\<open>#name\<close> gives
  \<^verbatim>\<open>self.language.repository.get(key[1:], None)\<close>; the subscript \<^verbatim>\<open>key[0]\<close> of an empty
  key raises.
\<close>

definition find_include :: "store \<Rightarrow> pid \<Rightarrow> string \<Rightarrow> error + slot" where
  "find_include ps self ky =
     (case language (ps self) of
        None \<Rightarrow> Inl (IncludedParserNotFound (Some ky))
      | Some l \<Rightarrow>
          if ky = ''$self'' \<or> ky = ''$base'' then Inr (Parser l)
          else
            (case ky of
               [] \<Rightarrow> Inl IndexError
             | c # rest \<Rightarrow>
                 if c = CHR ''#''
                 then Inr (case map_of (repository (ps l)) rest of
                             None \<Rightarrow> PyNone
                           | Some q \<Rightarrow> Parser q)
                 else find_include_scopes (ps l) ky))"

text \<open>
  \<^verbatim>\<open>parser if isinstance(parser, GrammarParser) else self._find_include(parser)\<close>; for
  \<^verbatim>\<open>None\<close> in the slot the call \<^verbatim>\<open>_find_include(None)\<close> raises at \<^verbatim>\<open>key[0]\<close>.
\<close>

definition resolve :: "store \<Rightarrow> pid \<Rightarrow> slot \<Rightarrow> error + slot" where
  "resolve ps self s =
     (case s of
        Parser q \<Rightarrow> Inr (Parser q)
      | Include ky \<Rightarrow> find_include ps self ky
      | PyNone \<Rightarrow>
          (case language (ps self) of
             None \<Rightarrow> Inl (IncludedParserNotFound None)
           | Some l \<Rightarrow> Inl TypeError))"

fun resolve_all :: "store \<Rightarrow> pid \<Rightarrow> slot list \<Rightarrow> error + slot list" where
  "resolve_all ps self [] = Inr []"
| "resolve_all ps self (s # ss) =
     (case resolve ps self s of
        Inl e \<Rightarrow> Inl e
      | Inr r \<Rightarrow>
          (case resolve_all ps self ss of
             Inl e \<Rightarrow> Inl e
           | Inr rs \<Rightarrow> Inr (r # rs)))"

text \<open>The same over the values of a captures dictionary.\<close>

fun resolve_dict :: "store \<Rightarrow> pid \<Rightarrow> (int \<times> slot) list \<Rightarrow> error + (int \<times> slot) list" where
  "resolve_dict ps self [] = Inr []"
| "resolve_dict ps self ((k, s) # kss) =
     (case resolve ps self s of
        Inl e \<Rightarrow> Inl e
      | Inr r \<Rightarrow>
          (case resolve_dict ps self kss of
             Inl e \<Rightarrow> Inl e
           | Inr rs \<Rightarrow> Inr ((k, r) # rs)))"

text \<open>
  \<^verbatim>\<open>for parser in ...: if not parser.initialized: parser.initialize_repository()\<close>;
  reading \<^verbatim>\<open>initialized\<close> from \<^verbatim>\<open>None\<close> raises \<^verbatim>\<open>AttributeError\<close>.
\<close>

fun init_children ::
  "(pid \<Rightarrow> store \<Rightarrow> store result) \<Rightarrow> slot list \<Rightarrow> store \<Rightarrow> store result" where
  "init_children rec [] ps = Some (Inr ps)"
| "init_children rec (Parser q # xs) ps =
     (if initialized (ps q) then init_children rec xs ps
      else
        (case rec q ps of
           None \<Rightarrow> None
         | Some (Inl e) \<Rightarrow> Some (Inl e)
         | Some (Inr ps') \<Rightarrow> init_children rec xs ps'))"
| "init_children rec (x # xs) ps = Some (Inl AttributeError)"

text \<open>\<^verbatim>\<open>list.index\<close>.\<close>

fun index_of :: "'a \<Rightarrow> 'a list \<Rightarrow> nat option" where
  "index_of x [] = None"
| "index_of x (y # ys) =
     (if x = y then Some 0 else (case index_of x ys of None \<Rightarrow> None | Some i \<Rightarrow> Some (Suc i)))"

text \<open>
  \<^verbatim>\<open>self.patterns[parser_index : parser_index + 1] = parser.patterns\<close> for one child
  \<open>q\<close>, at the first place where \<open>q\<close> stands in the list.
\<close>

definition splice_one :: "store \<Rightarrow> pid \<Rightarrow> pid \<Rightarrow> error + store" where
  "splice_one ps self q =
     (let xs = patterns (ps self)
      in case index_of (Parser q) xs of
           None \<Rightarrow> Inl ValueError
         | Some i \<Rightarrow>
             Inr (ps(self := (ps self)\<lparr>patterns := take i xs @ patterns (ps q) @ drop (Suc i) xs\<rparr>)))"

fun splice_all :: "store \<Rightarrow> pid \<Rightarrow> pid list \<Rightarrow> error + store" where
  "splice_all ps self [] = Inr ps"
| "splice_all ps self (q # qs) =
     (case splice_one ps self q of
        Inl e \<Rightarrow> Inl e
      | Inr ps' \<Rightarrow> splice_all ps' self qs)"

text \<open>\<^verbatim>\<open>[parser for parser in self.patterns if type(parser) == PatternsParser]\<close>.\<close>

fun pattern_parsers :: "store \<Rightarrow> slot list \<Rightarrow> pid list" where
  "pattern_parsers ps [] = []"
| "pattern_parsers ps (Parser q # xs) =
     (if kind (ps q) = PatternsParser then q # pattern_parsers ps xs else pattern_parsers ps xs)"
| "pattern_parsers ps (x # xs) = pattern_parsers ps xs"

definition set_initialized :: "store \<Rightarrow> pid \<Rightarrow> store" where
  "set_initialized ps self = ps(self := (ps self)\<lparr>initialized := True\<rparr>)"

text \<open>\<^verbatim>\<open>MatchParser.initialize_repository\<close>.\<close>

definition MatchParser_initialize_repository ::
  "(pid \<Rightarrow> store \<Rightarrow> store result) \<Rightarrow> pid \<Rightarrow> store \<Rightarrow> store result" where
  "MatchParser_initialize_repository rec self ps =
     (let ps1 = set_initialized ps self
      in case resolve_dict ps1 self (parsers (ps1 self)) of
           Inl e \<Rightarrow> Some (Inl e)
         | Inr caps \<Rightarrow>
             init_children rec (map snd caps) (ps1(self := (ps1 self)\<lparr>parsers := caps\<rparr>)))"

text \<open>\<^verbatim>\<open>PatternsParser.initialize_repository\<close>.\<close>

definition PatternsParser_initialize_repository ::
  "(pid \<Rightarrow> store \<Rightarrow> store result) \<Rightarrow> pid \<Rightarrow> store \<Rightarrow> store result" where
  "PatternsParser_initialize_repository rec self ps =
     (let ps1 = set_initialized ps self
      in case resolve_all ps1 self (patterns (ps1 self)) of
           Inl e \<Rightarrow> Some (Inl e)
         | Inr pats \<Rightarrow>
             (case init_children rec pats (ps1(self := (ps1 self)\<lparr>patterns := pats\<rparr>)) of
                None \<Rightarrow> None
              | Some (Inl e) \<Rightarrow> Some (Inl e)
              | Some (Inr ps2) \<Rightarrow>
                  Some (splice_all ps2 self (pattern_parsers ps2 (patterns (ps2 self))))))"

text \<open>\<^verbatim>\<open>BeginEndParser.initialize_repository\<close>.\<close>

definition BeginEndParser_initialize_repository ::
  "(pid \<Rightarrow> store \<Rightarrow> store result) \<Rightarrow> pid \<Rightarrow> store \<Rightarrow> store result" where
  "BeginEndParser_initialize_repository rec self ps =
     (case PatternsParser_initialize_repository rec self (set_initialized ps self) of
        None \<Rightarrow> None
      | Some (Inl e) \<Rightarrow> Some (Inl e)
      | Some (Inr ps1) \<Rightarrow>
          (case resolve_dict ps1 self (parsers_end (ps1 self)) of
             Inl e \<Rightarrow> Some (Inl e)
           | Inr ecaps \<Rightarrow>
               (let ps2 = ps1(self := (ps1 self)\<lparr>parsers_end := ecaps\<rparr>)
                in case resolve_dict ps2 self (parsers_begin (ps2 self)) of
                     Inl e \<Rightarrow> Some (Inl e)
                   | Inr bcaps \<Rightarrow>
                       (case init_children rec (map snd bcaps)
                               (ps2(self := (ps2 self)\<lparr>parsers_begin := bcaps\<rparr>)) of
                          None \<Rightarrow> None
                        | Some (Inl e) \<Rightarrow> Some (Inl e)
                        | Some (Inr ps3) \<Rightarrow>
                            init_children rec (map snd (parsers_end (ps3 self))) ps3))))"

text \<open>
  \<^verbatim>\<open>BeginWhileParser.initialize_repository\<close> reads \<^verbatim>\<open>self.parsers_end\<close>, an attribute that
  \<^verbatim>\<open>BeginWhileParser.__init__\<close> never sets.
\<close>

definition BeginWhileParser_initialize_repository ::
  "(pid \<Rightarrow> store \<Rightarrow> store result) \<Rightarrow> pid \<Rightarrow> store \<Rightarrow> store result" where
  "BeginWhileParser_initialize_repository rec self ps =
     (case PatternsParser_initialize_repository rec self (set_initialized ps self) of
        None \<Rightarrow> None
      | Some (Inl e) \<Rightarrow> Some (Inl e)
      | Some (Inr ps1) \<Rightarrow> Some (Inl AttributeError))"

text \<open>
  The method call \<^verbatim>\<open>parser.initialize_repository()\<close> on the object \<open>q\<close>; the fuel bounds
  the depth of the recursion. The base method of \<^verbatim>\<open>GrammarParser\<close>, which
  \<^verbatim>\<open>TokenParser\<close> inherits, does nothing. Modelled from the spec: the language root
  (\<^verbatim>\<open>language.py\<close> is not among the sources) is a \<^verbatim>\<open>PatternsParser\<close> and is initialized
  as one.
\<close>

primrec initialize_repository :: "nat \<Rightarrow> pid \<Rightarrow> store \<Rightarrow> store result" where
  "initialize_repository 0 = (\<lambda>q ps. None)"
| "initialize_repository (Suc n) =
     (\<lambda>q ps.
        case kind (ps q) of
          TokenParser \<Rightarrow> Some (Inr ps)
        | MatchParser \<Rightarrow> MatchParser_initialize_repository (initialize_repository n) q ps
        | PatternsParser \<Rightarrow> PatternsParser_initialize_repository (initialize_repository n) q ps
        | LanguageParser \<Rightarrow> PatternsParser_initialize_repository (initialize_repository n) q ps
        | BeginEndParser \<Rightarrow> BeginEndParser_initialize_repository (initialize_repository n) q ps
        | BeginWhileParser \<Rightarrow>
            BeginWhileParser_initialize_repository (initialize_repository n) q ps)"

section \<open>Initialized parsers\<close>

text \<open>
  The state of a parser on which \<^verbatim>\<open>initialize_repository\<close> has nothing left to do: the
  parser is marked initialized, every slot of its pattern list and of its captures
  dictionaries holds an initialized parser, and no parser of the exact type
  \<^verbatim>\<open>PatternsParser\<close> stands in its pattern list.
\<close>

definition all_initialized :: "store \<Rightarrow> slot list \<Rightarrow> bool" where
  "all_initialized ps xs =
     list_all (\<lambda>x. case x of Parser q \<Rightarrow> initialized (ps q) | Include ky \<Rightarrow> False
                              | PyNone \<Rightarrow> False) xs"

definition settled :: "store \<Rightarrow> pid \<Rightarrow> bool" where
  "settled ps self =
     (initialized (ps self) \<and>
      all_initialized ps (patterns (ps self)) \<and>
      all_initialized ps (map snd (parsers (ps self))) \<and>
      all_initialized ps (map snd (parsers_begin (ps self))) \<and>
      all_initialized ps (map snd (parsers_end (ps self))) \<and>
      pattern_parsers ps (patterns (ps self)) = [])"

section \<open>Example handlers and grammars\<close>

text \<open>
  A handler over the lines \<open>ls\<close> whose regex search is given as a table \<open>tbl\<close> from the
  pattern, the starting position and the keywords to the match; the search leaves the anchor
  as it is. The regex engine itself is outside the parser.
\<close>

definition line_at :: "string list \<Rightarrow> int \<Rightarrow> string" where
  "line_at ls l = (if 0 \<le> l \<and> nat l < length ls then ls ! nat l else [])"

definition text_handler ::
  "string list \<Rightarrow> (pattern \<Rightarrow> pos \<Rightarrow> kwargs \<Rightarrow> (rematch \<times> span) option) \<Rightarrow> handler" where
  "text_handler ls tbl =
     \<lparr>lines = ls,
      line_lengths = map (\<lambda>l. int (length l)) ls,
      anchor = AnchorInt 0,
      read_pos = (\<lambda>p q. if fst p = fst q
                         then take (nat (snd q - snd p)) (drop (nat (snd p)) (line_at ls (fst p)))
                         else drop (nat (snd p)) (line_at ls (fst p))
                              @ concat (map (line_at ls) [fst p + 1 .. fst q - 1])
                              @ take (nat (snd q)) (line_at ls (fst q))),
      read_line = (\<lambda>p. drop (nat (snd p)) (line_at ls (fst p))),
      read_length = (\<lambda>p n skip. take (nat n) (drop (nat (snd p)) (line_at ls (fst p)))),
      range_pos = (\<lambda>p q. map (\<lambda>c. (fst p, c)) [snd p .. snd q - 1]),
      next_pos = (\<lambda>p. if int (length (line_at ls (fst p))) \<le> snd p then (fst p + 1, 0)
                       else (fst p, snd p + 1)),
      prev_pos = (\<lambda>p. if snd p = 0
                       then (if fst p = 0 then (0, 0)
                             else (fst p - 1, int (length (line_at ls (fst p - 1)))))
                       else (fst p, snd p - 1)),
      search = (\<lambda>pat s b kw a. (tbl pat s kw, a))\<rparr>"

definition ex_grammar :: grammar where
  "ex_grammar =
     \<lparr>g_name = Some ''tok'', g_contentName = None, g_disabled = None, g_match = None,
      g_begin = None, g_end = None, g_while = None, g_applyEndPatternLast = None\<rparr>"

definition no_grammar :: grammar where
  "no_grammar =
     \<lparr>g_name = None, g_contentName = None, g_disabled = None, g_match = None,
      g_begin = None, g_end = None, g_while = None, g_applyEndPatternLast = None\<rparr>"

text \<open>
  The buffer \<^verbatim>\<open>ab\<close>. The pattern \<^verbatim>\<open>a\<close> matches at column 0, and nowhere from column 1
  on. The look-ahead \<^verbatim>\<open>(?=b)\<close> matches the empty string at column 1: a search from
  column 1 finds it, and a search from column 0 finds it only with
  \<^verbatim>\<open>allow_leading_all=True\<close>, since the \<^verbatim>\<open>a\<close> before it is not whitespace.
\<close>

definition ab_table :: "pattern \<Rightarrow> pos \<Rightarrow> kwargs \<Rightarrow> (rematch \<times> span) option" where
  "ab_table pat s kw =
     (if pat = ''a'' \<and> s = (0, 0) then Some (ReMatch ''a'', ((0, 0), (0, 1)))
      else if pat = ''(?=b)'' \<and>
              (s = (0, 1) \<or> (s = (0, 0) \<and> kw_allow_leading_all kw = Some True))
           then Some (ReMatch [], ((0, 1), (0, 1)))
      else None)"

definition ab_world :: world where
  "ab_world = \<lparr>hnd = text_handler [''ab''] ab_table, warnings = []\<rparr>"

text \<open>
  Parser 0 is the grammar \<^verbatim>\<open>{"patterns": [{"match": "a"}, {"match": "(?=b)"}]}\<close>;
  parser 3 has the second pattern of its own and the first as an injected pattern.
\<close>

definition ab_store :: store where
  "ab_store =
     (\<lambda>q. TokenParser_init no_grammar None [])
       (0 := PatternsParser_init PatternsParser no_grammar [Parser 1, Parser 2] None [],
        1 := MatchParser_init ex_grammar ''a'' [] None [],
        2 := MatchParser_init ex_grammar ''(?=b)'' [] None [],
        3 := (PatternsParser_init PatternsParser no_grammar [Parser 2] None [])
               \<lparr>injected_patterns := [Parser 1]\<rparr>)"

definition kw_find_all :: kwargs where
  "kw_find_all =
     \<lparr>kw_allow_leading_all = None, kw_find_one = Some False, kw_injections = Some False\<rparr>"

definition blk_grammar :: grammar where
  "blk_grammar =
     \<lparr>g_name = Some ''blk'', g_contentName = None, g_disabled = None, g_match = None,
      g_begin = None, g_end = None, g_while = None, g_applyEndPatternLast = None\<rparr>"

definition cont_grammar :: grammar where
  "cont_grammar =
     \<lparr>g_name = Some ''blk'', g_contentName = Some ''inner'', g_disabled = None,
      g_match = None, g_begin = None, g_end = None, g_while = None,
      g_applyEndPatternLast = None\<rparr>"

text \<open>
  The buffer \<^verbatim>\<open>xxy\<close> and the repository rule
  \<^verbatim>\<open>{"name": "blk", "begin": "x", "end": "xy", "patterns": [{"include": "#blk"}]}\<close>,
  which includes itself: after initialization its pattern list holds the rule itself.
\<close>

definition xy_table :: "pattern \<Rightarrow> pos \<Rightarrow> kwargs \<Rightarrow> (rematch \<times> span) option" where
  "xy_table pat s kw =
     (if pat = ''x'' \<and> s = (0, 0) then Some (ReMatch ''x'', ((0, 0), (0, 1)))
      else if pat = ''x'' \<and> s = (0, 1) then Some (ReMatch ''x'', ((0, 1), (0, 2)))
      else if pat = ''xy'' \<and> s = (0, 1) then Some (ReMatch ''xy'', ((0, 1), (0, 3)))
      else None)"

definition xy_world :: world where
  "xy_world = \<lparr>hnd = text_handler [''xxy''] xy_table, warnings = []\<rparr>"

definition xy_store :: store where
  "xy_store =
     (\<lambda>q. TokenParser_init no_grammar None [])
       (0 := BeginEndParser_init blk_grammar ''x'' ''xy'' [Parser 0] [] [] None [])"

text \<open>
  The buffer of the one line \<^verbatim>\<open>a\<close> with its newline, and the rule
  \<^verbatim>\<open>{"name": "blk", "begin": "a", "end": "z"}\<close> whose end pattern matches nowhere.
\<close>

definition a_table :: "pattern \<Rightarrow> pos \<Rightarrow> kwargs \<Rightarrow> (rematch \<times> span) option" where
  "a_table pat s kw =
     (if pat = ''a'' \<and> s = (0, 0) then Some (ReMatch ''a'', ((0, 0), (0, 1))) else None)"

definition a_world :: world where
  "a_world = \<lparr>hnd = text_handler [[CHR ''a'', CHR 0x0A]] a_table, warnings = []\<rparr>"

definition a_store :: store where
  "a_store =
     (\<lambda>q. TokenParser_init no_grammar None [])
       (0 := BeginEndParser_init blk_grammar ''a'' ''z'' [] [] [] None [])"

text \<open>
  The buffer \<^verbatim>\<open>abbc\<close> and the rule
  \<^verbatim>\<open>{"name": "blk", "contentName": "inner", "begin": "a", "end": "c",
  "patterns": [{"name": "tok", "match": "\\Gb"}]}\<close>. The anchored pattern matches the first
  \<^verbatim>\<open>b\<close>, right after the begin match; the end pattern is found from column 2 once leading
  characters are allowed.
\<close>

definition abbc_table :: "pattern \<Rightarrow> pos \<Rightarrow> kwargs \<Rightarrow> (rematch \<times> span) option" where
  "abbc_table pat s kw =
     (if pat = ''a'' \<and> s = (0, 0) then Some (ReMatch ''a'', ((0, 0), (0, 1)))
      else if pat = anchor_G @ ''b'' \<and> s = (0, 1) then Some (ReMatch ''b'', ((0, 1), (0, 2)))
      else if pat = ''c'' \<and> s = (0, 2) \<and> kw_allow_leading_all kw = Some True
           then Some (ReMatch ''c'', ((0, 3), (0, 4)))
      else None)"

definition abbc_world :: world where
  "abbc_world = \<lparr>hnd = text_handler [''abbc''] abbc_table, warnings = []\<rparr>"

definition abbc_store :: store where
  "abbc_store =
     (\<lambda>q. TokenParser_init no_grammar None [])
       (0 := BeginEndParser_init cont_grammar ''a'' ''c'' [Parser 1] [] [] None [],
        1 := MatchParser_init ex_grammar (anchor_G @ ''b'') [] None [])"

text \<open>A child function that raises on parser 1 and is the parser's own everywhere else.\<close>

definition abbc_other_child :: child_parse where
  "abbc_other_child =
     (\<lambda>q. if q = 1 then (\<lambda>s b k w. Some (Inl TypeError))
          else parser_parse (Suc 0) abbc_store q)"

text \<open>What the first iteration of the outer block finds on \<^verbatim>\<open>xxy\<close>.\<close>

definition xy_capture :: "element list" where
  "xy_capture =
     [ContentBlockElement (Some ''blk'') blk_grammar ''xy'' [(0, 1), (0, 2)] []
        [Captures ''x'' (ReMatch ''x'') [] (0, 1) (Some (0, 3)) (search_kwargs False)] []]"

definition xy_end :: "element list" where
  "xy_end = [Captures ''xy'' (ReMatch ''xy'') [] (0, 1) (Some (0, 3)) (search_kwargs False)]"

definition xy_world1 :: world where
  "xy_world1 = xy_world\<lparr>warnings := [SkipLineWarning 0 (0, 2) ''y'']\<rparr>"


text \<open>
  A language (parser 0) whose repository has the rules \<^verbatim>\<open>m\<close> (a match) and \<^verbatim>\<open>g\<close>
  (a group of patterns); the group includes \<^verbatim>\<open>#m\<close> and \<^verbatim>\<open>#missing\<close>, a name that the
  repository does not have.
\<close>

definition lang_parser :: "slot list \<Rightarrow> (string \<times> pid) list \<Rightarrow> parser" where
  "lang_parser pats repo =
     (PatternsParser_init LanguageParser no_grammar pats (Some 0) [])\<lparr>repository := repo\<rparr>"

definition missing_store :: store where
  "missing_store =
     (\<lambda>q. TokenParser_init no_grammar None [])
       (0 := lang_parser [Include ''#g''] [(''m'', 2), (''g'', 1)],
        1 := PatternsParser_init PatternsParser no_grammar
               [Include ''#m'', Include ''#missing''] (Some 0) ''g'',
        2 := MatchParser_init ex_grammar ''x'' [] (Some 0) ''m'')"

text \<open>
  A language whose group \<^verbatim>\<open>g\<close> includes \<^verbatim>\<open>#m\<close> and the group \<^verbatim>\<open>#h\<close>, which in turn
  includes \<^verbatim>\<open>#m\<close>; and the store that the first call of \<^verbatim>\<open>initialize_repository\<close> on
  \<^verbatim>\<open>g\<close> leaves.
\<close>

definition flat_store :: store where
  "flat_store =
     (\<lambda>q. TokenParser_init no_grammar None [])
       (0 := lang_parser [Include ''#g''] [(''m'', 2), (''g'', 1), (''h'', 3)],
        1 := PatternsParser_init PatternsParser no_grammar [Include ''#m'', Include ''#h'']
               (Some 0) ''g'',
        2 := MatchParser_init ex_grammar ''x'' [] (Some 0) ''m'',
        3 := PatternsParser_init PatternsParser no_grammar [Include ''#m''] (Some 0) ''h'')"

definition flat_store1 :: store where
  "flat_store1 =
     (\<lambda>q. TokenParser_init no_grammar None [])
       (0 := lang_parser [Include ''#g''] [(''m'', 2), (''g'', 1), (''h'', 3)],
        1 := (PatternsParser_init PatternsParser no_grammar [Parser 2, Parser 2] (Some 0) ''g'')
               \<lparr>initialized := True\<rparr>,
        2 := (MatchParser_init ex_grammar ''x'' [] (Some 0) ''m'')\<lparr>initialized := True\<rparr>,
        3 := (PatternsParser_init PatternsParser no_grammar [Parser 2] (Some 0) ''h'')
               \<lparr>initialized := True\<rparr>)"

text \<open>
  Two groups of patterns that include each other:
  \<^verbatim>\<open>"a": {"patterns": [{"include": "#b"}]}\<close> and
  \<^verbatim>\<open>"b": {"patterns": [{"include": "#a"}, {"match": "x"}]}\<close>.
\<close>

definition cyc_store :: store where
  "cyc_store =
     (\<lambda>q. TokenParser_init no_grammar None [])
       (0 := lang_parser [Include ''#a''] [(''a'', 1), (''b'', 2)],
        1 := PatternsParser_init PatternsParser no_grammar [Include ''#b''] (Some 0) ''a'',
        2 := PatternsParser_init PatternsParser no_grammar [Include ''#a'', Parser 3] (Some 0)
               ''b'',
        3 := MatchParser_init ex_grammar ''x'' [] (Some 0) [])"



section \<open>Properties\<close>

lemmas ab_defs =
  ab_store_def ab_world_def ab_table_def text_handler_def ex_grammar_def no_grammar_def
  PatternsParser_init_def MatchParser_init_def TokenParser_init_def GrammarParser_init_def

subsection \<open>\<^verbatim>\<open>TokenParser._parse\<close>\<close>

text \<open>
  Claim C7, as the code has it. With a boundary, \<^verbatim>\<open>TokenParser._parse\<close> returns true, one
  element with the parser's token, the text \<^verbatim>\<open>read_pos(starting, boundary)\<close> and the
  indices \<^verbatim>\<open>range(starting, boundary)\<close>, the span \<^verbatim>\<open>(starting, boundary)\<close>, and sets
  \<^verbatim>\<open>handler.anchor\<close> to the column \<^verbatim>\<open>boundary[1]\<close>.
\<close>

theorem TokenParser_parse_boundary:
  "TokenParser_parse self starting (Some boundary) w =
     Inr ((True,
           [ContentElement (token self) (grammar self) (read_pos (hnd w) starting boundary)
              (range_pos (hnd w) starting boundary) []],
           Some (starting, boundary)),
          w\<lparr>hnd := (hnd w)\<lparr>anchor := AnchorInt (snd boundary)\<rparr>\<rparr>)"
  by (simp add: TokenParser_parse_def Let_def)

text \<open>
  Claim C7 as stated says that the anchor becomes the boundary, a position. On the buffer
  \<^verbatim>\<open>ab\<close> with the boundary \<open>(0, 2)\<close> the anchor is the integer \<open>2\<close>, not the
  position \<open>(0, 2)\<close>.
\<close>

theorem TokenParser_anchor_counterexample:
  "(case TokenParser_parse (TokenParser_init ex_grammar None []) (0, 0) (Some (0, 2)) ab_world of
      Inl e \<Rightarrow> False
    | Inr (r, w') \<Rightarrow> anchor (hnd w') = AnchorInt 2 \<and> anchor (hnd w') \<noteq> AnchorPos (0, 2))"
  by (simp add: TokenParser_parse_def Let_def)

subsection \<open>\<^verbatim>\<open>MatchParser._parse\<close>\<close>

text \<open>
  Claim C8. When the search finds no match, \<^verbatim>\<open>MatchParser._parse\<close> returns
  \<^verbatim>\<open>(False, [], None)\<close>. When it finds the match \<open>m\<close> with span \<open>sp\<close>, it returns true and
  the span \<open>sp\<close>; the elements are one element with the parser's token, the matched text
  and the capture children when the token is non-empty, and the capture children themselves
  when the token is empty.
\<close>

theorem MatchParser_parse_result:
  "(search (hnd w) (exp_match self) starting boundary kw (anchor (hnd w)) = (None, a) \<longrightarrow>
      MatchParser_parse self starting boundary kw w =
        Inr ((False, [], None), w\<lparr>hnd := (hnd w)\<lparr>anchor := a\<rparr>\<rparr>)) \<and>
   (search (hnd w) (exp_match self) starting boundary kw (anchor (hnd w)) = (Some (m, sp), a) \<longrightarrow>
      MatchParser_parse self starting boundary kw w =
        Inr ((True,
              (if truthy (token self)
               then [ContentElement (token self) (grammar self) (group0 m)
                       (range_pos (hnd w) (fst sp) (snd sp))
                       [Captures (exp_match self) m (parsers self) starting boundary kw]]
               else [Captures (exp_match self) m (parsers self) starting boundary kw]),
              Some sp),
             w\<lparr>hnd := (hnd w)\<lparr>anchor := a\<rparr>\<rparr>))"
  by (simp add: MatchParser_parse_def match_and_capture_def Let_def)

theorem MatchParser_parse_result_witness:
  "search (hnd ab_world) (exp_match (ab_store 2)) (0, 0) (Some (0, 2)) no_kwargs
     (anchor (hnd ab_world)) = (None, AnchorInt 0) \<and>
   MatchParser_parse (ab_store 2) (0, 0) (Some (0, 2)) no_kwargs ab_world =
     Inr ((False, [], None), ab_world) \<and>
   search (hnd ab_world) (exp_match (ab_store 1)) (0, 0) (Some (0, 2)) no_kwargs
     (anchor (hnd ab_world)) = (Some (ReMatch ''a'', ((0, 0), (0, 1))), AnchorInt 0) \<and>
   MatchParser_parse (ab_store 1) (0, 0) (Some (0, 2)) no_kwargs ab_world =
     Inr ((True,
           [ContentElement (Some ''tok'') ex_grammar ''a'' [(0, 0)]
              [Captures ''a'' (ReMatch ''a'') [] (0, 0) (Some (0, 2)) no_kwargs]],
           Some ((0, 0), (0, 1))),
          ab_world)"
proof -
  have s2: "search (hnd ab_world) (exp_match (ab_store 2)) (0, 0) (Some (0, 2)) no_kwargs
              (anchor (hnd ab_world)) = (None, AnchorInt 0)"
    by (simp add: ab_defs no_kwargs_def)
  have s1: "search (hnd ab_world) (exp_match (ab_store 1)) (0, 0) (Some (0, 2)) no_kwargs
              (anchor (hnd ab_world)) = (Some (ReMatch ''a'', ((0, 0), (0, 1))), AnchorInt 0)"
    by (simp add: ab_defs)
  have same: "ab_world\<lparr>hnd := (hnd ab_world)\<lparr>anchor := AnchorInt 0\<rparr>\<rparr> = ab_world"
    by (simp add: ab_defs)
  have tok: "truthy (token (ab_store 1))" "token (ab_store 1) = Some ''tok''"
    "grammar (ab_store 1) = ex_grammar" "exp_match (ab_store 1) = ''a''"
    "parsers (ab_store 1) = []"
    by (simp_all add: ab_defs truthy_def)
  have rng: "range_pos (hnd ab_world) (0, 0) (0, 1) = [(0, 0)]"
    by (simp add: ab_defs upto.simps)
  from MatchParser_parse_result [of ab_world "ab_store 2" "(0, 0)" "Some (0, 2)" no_kwargs
      "AnchorInt 0"] s2 same
  have r2: "MatchParser_parse (ab_store 2) (0, 0) (Some (0, 2)) no_kwargs ab_world =
              Inr ((False, [], None), ab_world)"
    by simp
  from MatchParser_parse_result [of ab_world "ab_store 1" "(0, 0)" "Some (0, 2)" no_kwargs
      "AnchorInt 0" "ReMatch ''a''" "((0, 0), (0, 1))"] s1 same tok rng
  have r1: "MatchParser_parse (ab_store 1) (0, 0) (Some (0, 2)) no_kwargs ab_world =
              Inr ((True,
                    [ContentElement (Some ''tok'') ex_grammar ''a'' [(0, 0)]
                       [Captures ''a'' (ReMatch ''a'') [] (0, 0) (Some (0, 2)) no_kwargs]],
                    Some ((0, 0), (0, 1))),
                   ab_world)"
    by simp
  show ?thesis using s1 s2 r1 r2 by simp
qed

subsection \<open>\<^verbatim>\<open>PatternsParser._parse\<close>\<close>

lemma enabled_patterns_map:
  "enabled_patterns ps (map Parser ys) = Inr (filter (\<lambda>q. \<not> disabled (ps q)) ys)"
  by (induction ys) simp_all

text \<open>
  Claim C6, as the code has it. For a parser whose pattern list holds parsers only, the
  search set is its non-disabled patterns, followed by the injected patterns if and only if
  \<^verbatim>\<open>find_one\<close> or \<^verbatim>\<open>injections\<close> is true; with both false it is exactly the parser's
  own non-disabled patterns.
\<close>

theorem PatternsParser_search_set_injections:
  assumes "patterns (ps self) = map Parser ys"
  shows "PatternsParser_search_set ps self fnd_one injs =
           Inr (map Parser (filter (\<lambda>q. \<not> disabled (ps q)) ys)
                @ (if fnd_one \<or> injs then injected_patterns (ps self) else []))"
  using assms by (simp add: PatternsParser_search_set_def enabled_patterns_map)

theorem PatternsParser_search_set_injections_witness:
  "patterns (ab_store 3) = map Parser [2] \<and>
   PatternsParser_search_set ab_store 3 False True = Inr [Parser 2, Parser 1] \<and>
   PatternsParser_search_set ab_store 3 False False = Inr [Parser 2]"
proof -
  have p: "patterns (ab_store 3) = map Parser [2]" by (simp add: ab_defs)
  have d: "\<not> disabled (ab_store 2)" "injected_patterns (ab_store 3) = [Parser 1]"
    by (simp_all add: ab_defs)
  show ?thesis
    using PatternsParser_search_set_injections [of ab_store 3 "[2]" False True]
      PatternsParser_search_set_injections [of ab_store 3 "[2]" False False] p d
    by simp
qed

text \<open>
  Claim C6 as stated fails for \<^verbatim>\<open>find_one=True\<close> (the default) and
  \<^verbatim>\<open>injections=False\<close>: the injected pattern 1 is in the search set of parser 3.
\<close>

theorem PatternsParser_search_set_counterexample:
  "PatternsParser_search_set ab_store 3 True False = Inr [Parser 2, Parser 1] \<and>
   patterns (ab_store 3) = [Parser 2] \<and> injected_patterns (ab_store 3) = [Parser 1]"
  by (simp add: PatternsParser_search_set_def ab_defs)

lemma ab_child1_at1:
  "parser_parse (Suc j) ab_store (Suc 0) (0, 1) (Some (0, 2)) (child_kwargs a) ab_world =
     Some (Inr ((False, [], None), ab_world))"
  by (simp add: ab_defs MatchParser_parse_def match_and_capture_def)

lemma ab_child2_at1:
  "parser_parse (Suc j) ab_store 2 (0, 1) (Some (0, 2)) (child_kwargs a) ab_world =
     Some (Inr ((True,
                 [ContentElement (Some ''tok'') ex_grammar [] []
                    [Captures ''(?=b)'' (ReMatch []) [] (0, 1) (Some (0, 2)) (child_kwargs a)]],
                 Some ((0, 1), (0, 1))),
                ab_world))"
  by (simp add: ab_defs MatchParser_parse_def match_and_capture_def truthy_def)

lemma ab_child1_at0:
  "parser_parse (Suc j) ab_store (Suc 0) (0, 0) (Some (0, 2)) (child_kwargs a) ab_world =
     Some (Inr ((True,
                 [ContentElement (Some ''tok'') ex_grammar ''a'' [(0, 0)]
                    [Captures ''a'' (ReMatch ''a'') [] (0, 0) (Some (0, 2)) (child_kwargs a)]],
                 Some ((0, 0), (0, 1))),
                ab_world))"
  by (simp add: ab_defs MatchParser_parse_def match_and_capture_def truthy_def upto.simps)

lemma ab_round_at1:
  "search_round (parser_parse (Suc j) ab_store) [Parser 1, Parser 2] (0, 1) (0, 2) False False
     ab_world =
     Some (Inr (Some (2,
                      [ContentElement (Some ''tok'') ex_grammar [] []
                         [Captures ''(?=b)'' (ReMatch []) [] (0, 1) (Some (0, 2))
                            (child_kwargs False)]],
                      Some ((0, 1), (0, 1))),
                ab_world))"
  by (simp add: search_round_def ab_child1_at1 ab_child2_at1 del: parser_parse.simps)

lemma ab_round_at0:
  "search_round (parser_parse (Suc j) ab_store) [Parser 1, Parser 2] (0, 0) (0, 2) False False
     ab_world =
     Some (Inr (Some (1,
                      [ContentElement (Some ''tok'') ex_grammar ''a'' [(0, 0)]
                         [Captures ''a'' (ReMatch ''a'') [] (0, 0) (Some (0, 2))
                            (child_kwargs False)]],
                      Some ((0, 0), (0, 1))),
                ab_world))"
  by (simp add: search_round_def ab_child1_at0 del: parser_parse.simps)

text \<open>
  When a child matched and the cursor after it differs from the position the call started
  from, lines 300 to 304 let the loop go on, also when the cursor did not move in the round.
\<close>

lemma loop_again:
  assumes "pos_lt current boundary"
    and "search_round child pats current boundary ala False w =
           Some (Inr (Some (q, caps, Some (s, e)), w'))"
    and "e \<noteq> starting"
  shows "PatternsParser_loop (Suc n) child self pats starting boundary ala False current els w =
           PatternsParser_loop n child self pats starting boundary ala False e (els @ caps) w'"
  using assms by (simp add: PatternsParser_round_def after_match_def)

lemma ab_stall:
  "PatternsParser_loop k (parser_parse (Suc j) ab_store) 0 [Parser 1, Parser 2] (0, 0) (0, 2)
     False False (0, 1) els ab_world = None"
proof (induction k arbitrary: els)
  case 0
  show ?case by simp
next
  case (Suc k)
  have lt: "pos_lt (0, 1) (0, 2)" by simp
  have ne: "(0, 1) \<noteq> ((0, 0) :: pos)" by simp
  show ?case
    unfolding loop_again [OF lt ab_round_at1 ne] by (rule Suc.IH)
qed

lemma ab_never_returns:
  "parser_parse n ab_store 0 (0, 0) (Some (0, 2)) kw_find_all ab_world = None"
proof (cases n)
  case 0
  then show ?thesis by simp
next
  case (Suc m)
  have ss: "PatternsParser_search_set ab_store 0 False False = Inr [Parser 1, Parser 2]"
    by (simp add: PatternsParser_search_set_def ab_defs)
  have k: "kind (ab_store 0) = PatternsParser" by (simp add: ab_defs)
  have lt: "pos_lt (0, 0) (0, 2)" by simp
  have ne: "(0, 1) \<noteq> ((0, 0) :: pos)" by simp
  have "PatternsParser_loop m (parser_parse m ab_store) 0 [Parser 1, Parser 2] (0, 0) (0, 2)
          False False (0, 0) [] ab_world = None"
  proof (cases m)
    case 0
    then show ?thesis by simp
  next
    case (Suc j)
    show ?thesis
      unfolding Suc loop_again [OF lt ab_round_at0 ne] by (rule ab_stall)
  qed
  then show ?thesis
    unfolding Suc
    by (simp add: k PatternsParser_parse_def kw_find_all_def default_boundary_def ss)
qed

text \<open>
  Claim C4 on the buffer \<^verbatim>\<open>ab\<close> with the patterns \<^verbatim>\<open>a\<close> and \<^verbatim>\<open>(?=b)\<close> and
  \<^verbatim>\<open>find_one=False\<close>. The first round consumes \<^verbatim>\<open>a\<close>. In every later round the
  look-ahead matches the empty string at column 1: the round starts with the cursor at
  \<open>(0, 1)\<close> and leaves it at \<open>(0, 1)\<close>, yet it asks for another round and logs nothing,
  because line 300 compares the cursor with \<^verbatim>\<open>starting\<close>, which is \<open>(0, 0)\<close>. With no
  amount of fuel does the call return: the loop does not terminate on this input.
\<close>

theorem PatternsParser_parse_never_returns:
  "PatternsParser_round (parser_parse (Suc j) ab_store) 0 [Parser 1, Parser 2] (0, 0) (0, 2)
     False False (0, 1) els ab_world =
     Some (Inr (Again
                  (els @ [ContentElement (Some ''tok'') ex_grammar [] []
                            [Captures ''(?=b)'' (ReMatch []) [] (0, 1) (Some (0, 2))
                               (child_kwargs False)]])
                  (0, 1),
                ab_world)) \<and>
   parser_parse n ab_store 0 (0, 0) (Some (0, 2)) kw_find_all ab_world = None"
proof (rule conjI)
  show "PatternsParser_round (parser_parse (Suc j) ab_store) 0 [Parser 1, Parser 2] (0, 0)
          (0, 2) False False (0, 1) els ab_world =
        Some (Inr (Again
                     (els @ [ContentElement (Some ''tok'') ex_grammar [] []
                               [Captures ''(?=b)'' (ReMatch []) [] (0, 1) (Some (0, 2))
                                  (child_kwargs False)]])
                     (0, 1),
                   ab_world))"
    unfolding PatternsParser_round_def ab_round_at1 by (simp add: after_match_def)
  show "parser_parse n ab_store 0 (0, 0) (Some (0, 2)) kw_find_all ab_world = None"
    by (rule ab_never_returns)
qed

subsection \<open>\<^verbatim>\<open>BeginEndParser._parse\<close>\<close>

lemmas be_defs =
  BeginEndParser_init_def PatternsParser_init_def MatchParser_init_def TokenParser_init_def
  GrammarParser_init_def text_handler_def ex_grammar_def no_grammar_def line_at_def

lemmas be_parse_defs =
  BeginEndParser_parse_def BeginEnd_iteration_def BeginEnd_find_def BeginEnd_decide_def
  BeginEnd_finish_def arbitrate_def pattern_at_end_def capture_only_def skip_line_def
  advance_if_recursive_def is_self_def close_at_def match_and_capture_def search_kwargs_def
  no_kwargs_def default_boundary_def py_index_def py_isspace_def truthy_def newline_def
  pos_le_def MatchParser_parse_def Let_def

text \<open>
  Claim C1, as the code has it. In an iteration that found a capture (by the child \<open>q\<close>)
  and an end span, with the pattern at the end and the end span starting no later than the
  capture or empty: an empty end span appends the capture and closes at the end span;
  otherwise, with neither flag set, the block closes at the end span and the capture is
  dropped; otherwise the capture is appended and the cursor is set to the end of the capture
  span, and moved on by \<^verbatim>\<open>handler.next\<close> when the capture came from the parser itself.
\<close>

theorem BeginEnd_iteration_pattern_at_end:
  assumes "BeginEnd_find child (ps self_id) kw (map Parser pats) current boundary w =
             Some (Inr ((Some (q, ce, Some cs), Some es, ee), w1))"
    and "pattern_at_end (hnd w1) cs es"
    and "pos_le (fst es) (fst cs) \<or> snd es = fst es"
  shows "BeginEnd_iteration child ps self_id kw pats current boundary mid w =
           Some (Inr ((if snd es = fst es
                       then Break (close_at (ps self_id) es) es (mid @ ce)
                       else if \<not> apply_end_pattern_last (ps self_id) \<and> q \<noteq> self_id
                            then Break (close_at (ps self_id) es) es mid
                       else Continue (if q = self_id then next_pos (hnd w1) (snd cs)
                                      else snd cs) (mid @ ce),
                       ee),
                      w1))"
  using assms
  by (simp add: BeginEnd_iteration_def BeginEnd_decide_def arbitrate_def
      advance_if_recursive_def is_self_def)

lemmas xy_defs =
  xy_store_def xy_world_def xy_world1_def xy_table_def xy_capture_def xy_end_def
  blk_grammar_def anchor_G_def

lemma xy_find:
  "BeginEnd_find (parser_parse (Suc (Suc (Suc 0))) xy_store) (xy_store 0) no_kwargs
     (map Parser [0]) (0, 1) (0, 3) xy_world =
     Some (Inr ((Some (0, xy_capture, Some ((0, 1), (0, 3))), Some ((0, 1), (0, 3)), xy_end),
                xy_world1))"
  by (simp add: xy_defs be_defs be_parse_defs upto.simps)

lemma xy_at_end: "pattern_at_end (hnd xy_world1) ((0, 1), (0, 3)) ((0, 1), (0, 3))"
  by (simp add: xy_defs be_defs be_parse_defs)

theorem BeginEnd_iteration_pattern_at_end_witness:
  "BeginEnd_find (parser_parse (Suc (Suc (Suc 0))) xy_store) (xy_store 0) no_kwargs
     (map Parser [0]) (0, 1) (0, 3) xy_world =
     Some (Inr ((Some (0, xy_capture, Some ((0, 1), (0, 3))), Some ((0, 1), (0, 3)), xy_end),
                xy_world1)) \<and>
   pattern_at_end (hnd xy_world1) ((0, 1), (0, 3)) ((0, 1), (0, 3)) \<and>
   pos_le (0, 1) (0, 1) \<and>
   BeginEnd_iteration (parser_parse (Suc (Suc (Suc 0))) xy_store) xy_store 0 no_kwargs [0]
     (0, 1) (0, 3) [] xy_world =
     Some (Inr ((Continue (1, 0) xy_capture, xy_end), xy_world1))"
proof -
  have nx: "next_pos (hnd xy_world1) (0, 3) = (1, 0)"
    by (simp add: xy_defs be_defs)
  have fl: "\<not> apply_end_pattern_last (xy_store 0)"
    by (simp add: xy_defs be_defs)
  note inst = BeginEnd_iteration_pattern_at_end [where child = "parser_parse (Suc (Suc (Suc 0))) xy_store"
      and ps = xy_store and self_id = 0 and kw = no_kwargs and pats = "[0]"
      and current = "(0, 1)" and boundary = "(0, 3)" and w = xy_world and q = 0
      and ce = xy_capture and cs = "((0, 1), (0, 3))" and es = "((0, 1), (0, 3))"
      and ee = xy_end and ?w1.0 = xy_world1 and mid = "[]"]
  show ?thesis
    using inst xy_find xy_at_end nx fl
    by (simp add: pos_le_def del: parser_parse.simps)
qed

text \<open>
  Claim C1 as stated says that in the last case the loop continues from the end of the
  capture span. On \<^verbatim>\<open>xxy\<close> the capture comes from the rule itself and ends at
  \<open>(0, 3)\<close>, as the end span does; the iteration continues from \<open>(1, 0)\<close>, the position
  after \<open>(0, 3)\<close>.
\<close>

theorem BeginEnd_iteration_continue_counterexample:
  "BeginEnd_iteration (parser_parse (Suc (Suc (Suc 0))) xy_store) xy_store 0 no_kwargs [0]
     (0, 1) (0, 3) [] xy_world =
     Some (Inr ((Continue (1, 0) xy_capture, xy_end), xy_world1)) \<and>
   BeginEnd_find (parser_parse (Suc (Suc (Suc 0))) xy_store) (xy_store 0) no_kwargs
     (map Parser [0]) (0, 1) (0, 3) xy_world =
     Some (Inr ((Some (0, xy_capture, Some ((0, 1), (0, 3))), Some ((0, 1), (0, 3)), xy_end),
                xy_world1))"
  by (simp add: xy_defs be_defs be_parse_defs upto.simps)

lemma BeginEnd_loop_exhausted_at:
  "BeginEnd_loop n child ps self_id kw pats first_run current boundary mid ee w =
     Some (Inr (Exhausted b mid' ee', w')) \<Longrightarrow> b = boundary"
proof (induction n arbitrary: pats first_run current mid ee w)
  case 0
  then show ?case by simp
next
  case (Suc n)
  show ?case
  proof (cases "pos_le current boundary")
    case False
    with Suc.prems show ?thesis by simp
  next
    case True
    with Suc.prems Suc.IH show ?thesis
      by (auto split: option.splits sum.splits prod.splits step.splits)
  qed
qed

text \<open>
  Claim C2, as the code has it. When the cursor is past the boundary the loop ends in its
  \<^verbatim>\<open>else\<close> branch and returns the world as it is: nothing is logged there. When the begin
  pattern matched and the loop ended without an accepted end span, the parse succeeds: the
  closing position is the boundary, the end span is \<^verbatim>\<open>(None, boundary)\<close>, the returned
  span runs from the start of the begin match to the boundary, and the world is the one the
  loop returned.
\<close>

theorem BeginEndParser_parse_exhausted:
  "(\<not> pos_le current b \<longrightarrow>
      BeginEnd_loop (Suc m) child ps self_id kw pats' first_run current b mid ee w0 =
        Some (Inr (Exhausted b mid ee, w0))) \<and>
   (match_and_capture (hnd w) (exp_begin (ps self_id)) starting boundary
        (parsers_begin (ps self_id))
        (search_kwargs (case kw_allow_leading_all kw of None \<Rightarrow> False | Some a \<Rightarrow> a)) =
        ((Some bs, content, be), h1) \<and>
    default_boundary h1 boundary = Inr b \<and>
    enabled_patterns ps (patterns (ps self_id)) = Inr pats \<and>
    BeginEnd_loop n child ps self_id kw pats True (snd bs) b [] [] (w\<lparr>hnd := h1\<rparr>) =
        Some (Inr (lo, w2)) \<and>
    fst (end_span_of lo) = None \<longrightarrow>
      closing_of lo = b \<and> end_span_of lo = (None, b) \<and>
      BeginEndParser_parse n child ps self_id starting boundary kw w =
        Some (Inr ((True,
                    (if truthy (token (ps self_id))
                     then [ContentBlockElement (token (ps self_id)) (grammar (ps self_id))
                             (read_pos (hnd w2)
                                (if between_content (ps self_id) then snd bs else fst bs) b)
                             (range_pos (hnd w2)
                                (if between_content (ps self_id) then snd bs else fst bs) b)
                             (mid_of lo) be (end_of lo)]
                     else be @ mid_of lo @ end_of lo),
                    Some (fst bs, b)),
                   w2)))"
proof (intro conjI impI)
  assume "\<not> pos_le current b"
  then show "BeginEnd_loop (Suc m) child ps self_id kw pats' first_run current b mid ee w0 =
               Some (Inr (Exhausted b mid ee, w0))"
    by simp
next
  assume a: "match_and_capture (hnd w) (exp_begin (ps self_id)) starting boundary
        (parsers_begin (ps self_id))
        (search_kwargs (case kw_allow_leading_all kw of None \<Rightarrow> False | Some a \<Rightarrow> a)) =
        ((Some bs, content, be), h1) \<and>
    default_boundary h1 boundary = Inr b \<and>
    enabled_patterns ps (patterns (ps self_id)) = Inr pats \<and>
    BeginEnd_loop n child ps self_id kw pats True (snd bs) b [] [] (w\<lparr>hnd := h1\<rparr>) =
        Some (Inr (lo, w2)) \<and>
    fst (end_span_of lo) = None"
  then obtain b' mid' ee' where lo: "lo = Exhausted b' mid' ee'"
    by (cases lo) auto
  with a have b': "b' = b"
    using BeginEnd_loop_exhausted_at by blast
  show "closing_of lo = b" using lo b' by simp
  show "end_span_of lo = (None, b)" using lo b' by simp
  show "BeginEndParser_parse n child ps self_id starting boundary kw w =
        Some (Inr ((True,
                    (if truthy (token (ps self_id))
                     then [ContentBlockElement (token (ps self_id)) (grammar (ps self_id))
                             (read_pos (hnd w2)
                                (if between_content (ps self_id) then snd bs else fst bs) b)
                             (range_pos (hnd w2)
                                (if between_content (ps self_id) then snd bs else fst bs) b)
                             (mid_of lo) be (end_of lo)]
                     else be @ mid_of lo @ end_of lo),
                    Some (fst bs, b)),
                   w2))"
    using a lo b' by (simp add: BeginEndParser_parse_def BeginEnd_finish_def Let_def)
qed

lemmas a_defs = a_store_def a_world_def a_table_def blk_grammar_def anchor_G_def

lemma a_begin:
  "match_and_capture (hnd a_world) (exp_begin (a_store 0)) (0, 0) None
     (parsers_begin (a_store 0)) (search_kwargs False) =
     ((Some ((0, 0), (0, 1)), ''a'',
       [Captures ''a'' (ReMatch ''a'') [] (0, 0) None (search_kwargs False)]), hnd a_world)"
  by (simp add: a_defs be_defs be_parse_defs)

lemma a_loop:
  "BeginEnd_loop (Suc (Suc 0)) child a_store 0 no_kwargs [] True (0, 1) (0, 2) [] [] a_world =
     Some (Inr (Exhausted (0, 2) [] [], a_world))"
  by (simp add: a_defs be_defs be_parse_defs)

theorem BeginEndParser_parse_exhausted_witness:
  "\<not> pos_le (1, 0) (0, 2) \<and>
   BeginEnd_loop (Suc 0) (parser_parse (Suc 0) a_store) a_store 0 no_kwargs [] False (1, 0) (0, 2) [] [] a_world =
     Some (Inr (Exhausted (0, 2) [] [], a_world)) \<and>
   BeginEnd_loop (Suc (Suc 0)) (parser_parse (Suc 0) a_store) a_store 0 no_kwargs [] True (0, 1) (0, 2) [] [] a_world =
     Some (Inr (Exhausted (0, 2) [] [], a_world)) \<and>
   BeginEndParser_parse (Suc (Suc 0)) (parser_parse (Suc 0) a_store) a_store 0 (0, 0) None no_kwargs a_world =
     Some (Inr ((True,
                 [ContentBlockElement (Some ''blk'') blk_grammar [CHR ''a'', CHR 0x0A]
                    [(0, 0), (0, 1)] []
                    [Captures ''a'' (ReMatch ''a'') [] (0, 0) None (search_kwargs False)] []],
                 Some ((0, 0), (0, 2))),
                a_world))"
proof -
  have n: "\<not> pos_le (1, 0) (0, 2)" by (simp add: pos_le_def)
  have db: "default_boundary (hnd a_world) None = Inr (0, 2)"
    by (simp add: a_defs be_defs be_parse_defs)
  have en: "enabled_patterns a_store (patterns (a_store 0)) = Inr []"
    by (simp add: a_defs be_defs)
  have same: "a_world\<lparr>hnd := hnd a_world\<rparr> = a_world" by simp
  have flds: "truthy (token (a_store 0))" "token (a_store 0) = Some ''blk''"
    "grammar (a_store 0) = blk_grammar" "\<not> between_content (a_store 0)"
    "kw_allow_leading_all no_kwargs = None"
    by (simp_all add: a_defs be_defs be_parse_defs)
  have rd: "read_pos (hnd a_world) (0, 0) (0, 2) = [CHR ''a'', CHR 0x0A]"
    "range_pos (hnd a_world) (0, 0) (0, 2) = [(0, 0), (0, 1)]"
    by (simp_all add: a_defs be_defs upto.simps)
  note inst = BeginEndParser_parse_exhausted [where current = "(1, 0)" and b = "(0, 2)"
      and m = 0 and child = "parser_parse (Suc 0) a_store" and ps = a_store and self_id = 0 and kw = no_kwargs
      and pats' = "[]" and first_run = False and mid = "[]" and ee = "[]" and ?w0.0 = a_world
      and w = a_world and starting = "(0, 0)" and boundary = None
      and bs = "((0, 0), (0, 1))" and content = "''a''"
      and be = "[Captures ''a'' (ReMatch ''a'') [] (0, 0) None (search_kwargs False)]"
      and ?h1.0 = "hnd a_world" and pats = "[]" and n = "Suc (Suc 0)"
      and lo = "Exhausted (0, 2) [] []" and ?w2.0 = a_world]
  show ?thesis
    using inst n a_begin db en a_loop [of "parser_parse (Suc 0) a_store"] same flds rd
    by (simp del: BeginEnd_loop.simps parser_parse.simps)
qed

text \<open>
  Claim C2 as stated says that a warning is emitted. On the one-line buffer the block is
  closed at the boundary \<open>(0, 2)\<close> with no end match, and the log stays empty.
\<close>

theorem BeginEndParser_no_warning_counterexample:
  "parser_parse (Suc (Suc (Suc 0))) a_store 0 (0, 0) None no_kwargs a_world =
     Some (Inr ((True,
                 [ContentBlockElement (Some ''blk'') blk_grammar [CHR ''a'', CHR 0x0A]
                    [(0, 0), (0, 1)] []
                    [Captures ''a'' (ReMatch ''a'') [] (0, 0) None (search_kwargs False)] []],
                 Some ((0, 0), (0, 2))),
                a_world)) \<and>
   warnings a_world = []"
  by (simp add: a_defs be_defs be_parse_defs upto.simps)

lemma try_parsers_agree:
  assumes "\<forall>q. Parser q \<in> set pats \<longrightarrow> child' q = child q"
  shows "try_parsers child' pats current boundary kw w =
           try_parsers child pats current boundary kw w"
  using assms
proof (induction pats arbitrary: w)
  case Nil
  show ?case by simp
next
  case (Cons x xs)
  then show ?case
    by (cases x) (auto split: option.splits sum.splits prod.splits)
qed

lemma try_parsers_agree_fun:
  assumes "\<forall>q. Parser q \<in> set pats \<longrightarrow> child' q = child q"
  shows "try_parsers child' pats = try_parsers child pats"
  by (intro ext) (rule try_parsers_agree [OF assms])

lemma BeginEnd_find_agree:
  assumes "\<forall>q. Parser q \<in> set pats \<longrightarrow> child' q = child q"
  shows "BeginEnd_find child' self kw pats = BeginEnd_find child self kw pats"
  unfolding BeginEnd_find_def try_parsers_agree_fun [OF assms] by (rule refl)

lemma BeginEnd_iteration_agree:
  assumes "\<forall>q \<in> set pats. child' q = child q"
  shows "BeginEnd_iteration child' ps self_id kw pats = BeginEnd_iteration child ps self_id kw pats"
proof -
  from assms have "\<forall>q. Parser q \<in> set (map Parser pats) \<longrightarrow> child' q = child q"
    by auto
  then have "BeginEnd_find child' (ps self_id) kw (map Parser pats) =
             BeginEnd_find child (ps self_id) kw (map Parser pats)"
    by (rule BeginEnd_find_agree)
  then show ?thesis
    by (intro ext) (simp add: BeginEnd_iteration_def)
qed

lemma BeginEnd_loop_agree:
  assumes "\<forall>q \<in> set pats. child' q = child q"
  shows "BeginEnd_loop n child' ps self_id kw pats first_run =
           BeginEnd_loop n child ps self_id kw pats first_run"
  using assms
proof (induction n arbitrary: pats first_run)
  case 0
  show ?case by (intro ext) simp
next
  case (Suc n)
  have it: "BeginEnd_iteration child' ps self_id kw pats =
              BeginEnd_iteration child ps self_id kw pats"
    using Suc.prems by (rule BeginEnd_iteration_agree)
  have sub: "\<forall>q \<in> set (if first_run then filter (\<lambda>q. \<not> anchored (ps q)) pats else pats).
               child' q = child q"
    using Suc.prems by auto
  note ih = Suc.IH [OF sub, of False]
  show ?case
    by (intro ext) (unfold BeginEnd_loop.simps it ih, rule refl)
qed

text \<open>
  Claim C9. When the first iteration of the loop goes on, the rest of the loop runs over the
  pattern list without the children whose \<^verbatim>\<open>anchored\<close> flag is set, and its outcome does
  not depend on what parsing such a child would do: it is the same for every child function
  \<open>child'\<close> that agrees with \<open>child\<close> on the parsers that are not anchored. So no later
  iteration of the block attempts an anchored child.
\<close>

theorem BeginEnd_loop_drops_anchored:
  assumes "\<forall>q. \<not> anchored (ps q) \<longrightarrow> child' q = child q"
    and "pos_le current boundary"
    and "BeginEnd_iteration child ps self_id kw pats current boundary mid w =
           Some (Inr ((Continue cur mid', ee'), w'))"
  shows "BeginEnd_loop (Suc n) child ps self_id kw pats True current boundary mid ee w =
           BeginEnd_loop n child' ps self_id kw (filter (\<lambda>q. \<not> anchored (ps q)) pats) False
             cur boundary mid' ee' w'"
proof -
  have "\<forall>q \<in> set (filter (\<lambda>q. \<not> anchored (ps q)) pats). child' q = child q"
    using assms(1) by simp
  then have "BeginEnd_loop n child' ps self_id kw (filter (\<lambda>q. \<not> anchored (ps q)) pats) False =
             BeginEnd_loop n child ps self_id kw (filter (\<lambda>q. \<not> anchored (ps q)) pats) False"
    by (rule BeginEnd_loop_agree)
  then show ?thesis
    using assms(2,3) by simp
qed

text \<open>
  The flag is set by the constructors exactly when the source of the match pattern, or of
  the begin pattern, contains \<^verbatim>\<open>\G\<close>.
\<close>

lemma anchored_init:
  "anchored (MatchParser_init g m caps lang ky) = str_in anchor_G m"
  "anchored (BeginEndParser_init g b e pats bcaps ecaps lang ky) = str_in anchor_G b"
  by (simp_all add: MatchParser_init_def BeginEndParser_init_def)

lemmas abbc_defs = abbc_store_def abbc_world_def abbc_table_def cont_grammar_def anchor_G_def

lemma abbc_iteration1:
  "BeginEnd_iteration (parser_parse (Suc 0) abbc_store) abbc_store 0 no_kwargs [1] (0, 1) (0, 4)
     [] abbc_world =
     Some (Inr ((Continue (0, 2)
                   [ContentElement (Some ''tok'') ex_grammar ''b'' [(0, 1)]
                      [Captures (anchor_G @ ''b'') (ReMatch ''b'') [] (0, 1) (Some (0, 4))
                         (search_kwargs False)]],
                 []),
                abbc_world))"
  by (simp add: abbc_defs be_defs be_parse_defs upto.simps)

lemma abbc_rest:
  "BeginEnd_loop (Suc 0) abbc_other_child abbc_store 0 no_kwargs [] False (0, 2) (0, 4) mid ee
     abbc_world =
     Some (Inr (Closed (0, 3) ((0, 3), (0, 4)) mid
                  [Captures ''c'' (ReMatch ''c'') [] (0, 2) (Some (0, 4)) (search_kwargs True)],
                abbc_world))"
  by (simp add: abbc_defs be_defs be_parse_defs)

lemma abbc_other_child_agrees:
  "\<forall>q. \<not> anchored (abbc_store q) \<longrightarrow> abbc_other_child q = parser_parse (Suc 0) abbc_store q"
  by (simp add: abbc_other_child_def abbc_defs be_defs)

theorem BeginEnd_loop_drops_anchored_witness:
  "anchored (abbc_store 1) \<and>
   abbc_other_child 1 (0, 2) (Some (0, 4)) no_kwargs abbc_world = Some (Inl TypeError) \<and>
   filter (\<lambda>q. \<not> anchored (abbc_store q)) [1] = [] \<and>
   BeginEnd_loop (Suc (Suc 0)) (parser_parse (Suc 0) abbc_store) abbc_store 0 no_kwargs [1]
     True (0, 1) (0, 4) [] [] abbc_world =
     Some (Inr (Closed (0, 3) ((0, 3), (0, 4))
                  [ContentElement (Some ''tok'') ex_grammar ''b'' [(0, 1)]
                     [Captures (anchor_G @ ''b'') (ReMatch ''b'') [] (0, 1) (Some (0, 4))
                        (search_kwargs False)]]
                  [Captures ''c'' (ReMatch ''c'') [] (0, 2) (Some (0, 4)) (search_kwargs True)],
                abbc_world))"
proof -
  have le: "pos_le (0, 1) (0, 4)" by (simp add: pos_le_def)
  have an: "anchored (abbc_store 1)" by (simp add: abbc_defs be_defs)
  have "BeginEnd_loop (Suc (Suc 0)) (parser_parse (Suc 0) abbc_store) abbc_store 0 no_kwargs [1]
          True (0, 1) (0, 4) [] [] abbc_world =
        BeginEnd_loop (Suc 0) abbc_other_child abbc_store 0 no_kwargs
          (filter (\<lambda>q. \<not> anchored (abbc_store q)) [1]) False (0, 2) (0, 4)
          [ContentElement (Some ''tok'') ex_grammar ''b'' [(0, 1)]
             [Captures (anchor_G @ ''b'') (ReMatch ''b'') [] (0, 1) (Some (0, 4))
                (search_kwargs False)]]
          [] abbc_world"
    by (rule BeginEnd_loop_drops_anchored [OF abbc_other_child_agrees le abbc_iteration1])
  then show ?thesis
    using an abbc_rest
    by (simp add: abbc_other_child_def del: BeginEnd_loop.simps parser_parse.simps)
qed










subsection \<open>\<^verbatim>\<open>initialize_repository\<close>\<close>

lemmas init_defs =
  PatternsParser_initialize_repository_def MatchParser_initialize_repository_def
  BeginEndParser_initialize_repository_def set_initialized_def find_include_def resolve_def
  splice_one_def lang_parser_def PatternsParser_init_def MatchParser_init_def
  TokenParser_init_def GrammarParser_init_def ex_grammar_def no_grammar_def Let_def

text \<open>
  Claim C3 on the language whose group \<^verbatim>\<open>g\<close> includes \<^verbatim>\<open>#missing\<close>:
  \<^verbatim>\<open>_find_include\<close> returns \<^verbatim>\<open>None\<close> for the name, and \<^verbatim>\<open>initialize_repository\<close> on
  the group raises \<^verbatim>\<open>AttributeError\<close> when it reads \<^verbatim>\<open>initialized\<close> from that
  \<^verbatim>\<open>None\<close>; \<^verbatim>\<open>IncludedParserNotFound\<close> is not raised.
\<close>

theorem initialize_repository_missing_include:
  "find_include missing_store 1 ''#missing'' = Inr PyNone \<and>
   initialize_repository (Suc (Suc 0)) 1 missing_store = Some (Inl AttributeError)"
  by (simp add: missing_store_def init_defs)

lemma resolve_all_initialized:
  "all_initialized ps xs \<Longrightarrow> resolve_all ps self xs = Inr xs"
  by (induction xs) (auto simp: all_initialized_def resolve_def split: slot.splits)

lemma resolve_dict_initialized:
  "all_initialized ps (map snd d) \<Longrightarrow> resolve_dict ps self d = Inr d"
  by (induction d) (auto simp: all_initialized_def resolve_def split: slot.splits)

lemma init_children_initialized:
  "all_initialized ps xs \<Longrightarrow> init_children rec xs ps = Some (Inr ps)"
  by (induction xs) (auto simp: all_initialized_def split: slot.splits)

lemma set_initialized_same:
  "initialized (ps self) \<Longrightarrow> set_initialized ps self = ps"
  by (simp add: set_initialized_def fun_eq_iff)

lemma PatternsParser_initialize_repository_settled:
  assumes "settled ps self"
  shows "PatternsParser_initialize_repository rec self ps = Some (Inr ps)"
proof -
  from assms have i: "set_initialized ps self = ps"
    and p: "all_initialized ps (patterns (ps self))"
    and n: "pattern_parsers ps (patterns (ps self)) = []"
    by (simp_all add: settled_def set_initialized_same)
  have same: "ps(self := (ps self)\<lparr>patterns := patterns (ps self)\<rparr>) = ps"
    by (simp add: fun_eq_iff)
  show ?thesis
    by (simp add: PatternsParser_initialize_repository_def i resolve_all_initialized [OF p]
        same init_children_initialized [OF p] n)
qed

text \<open>
  Claim C5, as the code has it. On a parser of one of the four classes with an
  \<^verbatim>\<open>initialize_repository\<close> that returns, whose slots all hold initialized parsers and
  whose pattern list holds no parser of the exact type \<^verbatim>\<open>PatternsParser\<close>, another call
  leaves the parser graph as it is.
\<close>

theorem initialize_repository_settled:
  assumes "settled ps self"
    and "kind (ps self) \<in> {TokenParser, MatchParser, PatternsParser, BeginEndParser}"
  shows "initialize_repository (Suc n) self ps = Some (Inr ps)"
proof -
  from assms(1) have i: "set_initialized ps self = ps"
    and c: "all_initialized ps (map snd (parsers (ps self)))"
    and b: "all_initialized ps (map snd (parsers_begin (ps self)))"
    and e: "all_initialized ps (map snd (parsers_end (ps self)))"
    by (simp_all add: settled_def set_initialized_same)
  have same: "ps(self := (ps self)\<lparr>parsers := parsers (ps self)\<rparr>) = ps"
    "ps(self := (ps self)\<lparr>parsers_end := parsers_end (ps self)\<rparr>) = ps"
    "ps(self := (ps self)\<lparr>parsers_begin := parsers_begin (ps self)\<rparr>) = ps"
    by (simp_all add: fun_eq_iff)
  from assms(2) consider "kind (ps self) = TokenParser" | "kind (ps self) = MatchParser"
    | "kind (ps self) = PatternsParser" | "kind (ps self) = BeginEndParser"
    by auto
  then show ?thesis
  proof cases
    case 1
    then show ?thesis by simp
  next
    case 2
    then show ?thesis
      by (simp add: MatchParser_initialize_repository_def i resolve_dict_initialized [OF c]
          same init_children_initialized [OF c])
  next
    case 3
    then show ?thesis
      by (simp add: PatternsParser_initialize_repository_settled [OF assms(1)])
  next
    case 4
    then show ?thesis
      by (simp add: BeginEndParser_initialize_repository_def i
          PatternsParser_initialize_repository_settled [OF assms(1)]
          resolve_dict_initialized [OF e] resolve_dict_initialized [OF b] same
          init_children_initialized [OF b] init_children_initialized [OF e])
  qed
qed

lemma flat_first_call:
  "initialize_repository (Suc (Suc (Suc 0))) 1 flat_store = Some (Inr flat_store1)"
  by (simp add: flat_store_def flat_store1_def init_defs fun_eq_iff)

theorem initialize_repository_settled_witness:
  "initialize_repository (Suc (Suc (Suc 0))) 1 flat_store = Some (Inr flat_store1) \<and>
   settled flat_store1 1 \<and>
   kind (flat_store1 1) \<in> {TokenParser, MatchParser, PatternsParser, BeginEndParser} \<and>
   initialize_repository (Suc (Suc (Suc 0))) 1 flat_store1 = Some (Inr flat_store1)"
proof -
  have s: "settled flat_store1 1"
    by (simp add: settled_def all_initialized_def flat_store1_def init_defs)
  have k: "kind (flat_store1 1) \<in> {TokenParser, MatchParser, PatternsParser, BeginEndParser}"
    by (simp add: flat_store1_def init_defs)
  show ?thesis
    using initialize_repository_settled [OF s k, of "Suc (Suc 0)"] s k flat_first_call
    by (simp del: initialize_repository.simps)
qed

text \<open>
  Claim C5 as stated fails on the two groups that include each other. The first call on the
  group \<^verbatim>\<open>a\<close> leaves the pattern list \<open>[Parser 2, Parser 3]\<close>, where parser 2 is the
  group \<^verbatim>\<open>b\<close>; the second call splices the patterns of \<^verbatim>\<open>b\<close> once more and leaves
  \<open>[Parser 2, Parser 3, Parser 3]\<close>.
\<close>

theorem initialize_repository_twice_counterexample:
  "(case initialize_repository (Suc (Suc (Suc 0))) 1 cyc_store of
      Some (Inr s1) \<Rightarrow>
        (case initialize_repository (Suc (Suc (Suc 0))) 1 s1 of
           Some (Inr s2) \<Rightarrow>
             patterns (s1 1) = [Parser 2, Parser 3] \<and>
             patterns (s2 1) = [Parser 2, Parser 3, Parser 3]
         | Some (Inl e) \<Rightarrow> False
         | None \<Rightarrow> False)
    | Some (Inl e) \<Rightarrow> False
    | None \<Rightarrow> False)"
  by (simp add: cyc_store_def init_defs)

end
